theory Spec2Isabelle
  imports Main "HOL-Library.Word"
begin

unbundle bit_operations_syntax

section \<open>Machine integers, 9P constants and errors\<close>

text \<open>
  The 9P dispatcher of musclefs (package main) works on go9p's wire types. Go's
  \<^verbatim>\<open>uint8\<close>, \<^verbatim>\<open>uint16\<close>, \<^verbatim>\<open>uint32\<close> and \<^verbatim>\<open>uint64\<close> are words; a Go string and a
  byte slice are lists of 8-bit characters.
\<close>

type_synonym u8 = "8 word"
type_synonym u16 = "16 word"
type_synonym u32 = "32 word"
type_synonym u64 = "64 word"

text \<open>A \<^verbatim>\<open>storage.Pointer\<close>: a byte string, compared by value (\<^verbatim>\<open>Equals\<close>).\<close>

type_synonym pointer = string

text \<open>The mode bits of \<^verbatim>\<open>p.Dir.Mode\<close> (go9p, 9P2000 and 9P2000.u).\<close>

definition DMDIR :: u32 where "DMDIR = 0x80000000"
definition DMAPPEND :: u32 where "DMAPPEND = 0x40000000"
definition DMEXCL :: u32 where "DMEXCL = 0x20000000"
definition DMMOUNT :: u32 where "DMMOUNT = 0x10000000"
definition DMAUTH :: u32 where "DMAUTH = 0x08000000"
definition DMTMP :: u32 where "DMTMP = 0x04000000"
definition DMSYMLINK :: u32 where "DMSYMLINK = 0x02000000"
definition DMLINK :: u32 where "DMLINK = 0x01000000"
definition DMDEVICE :: u32 where "DMDEVICE = 0x00800000"
definition DMNAMEDPIPE :: u32 where "DMNAMEDPIPE = 0x00200000"
definition DMSOCKET :: u32 where "DMSOCKET = 0x00100000"
definition DMSETUID :: u32 where "DMSETUID = 0x00080000"
definition DMSETGID :: u32 where "DMSETGID = 0x00040000"

text \<open>The nine permission bits, written \<^verbatim>\<open>0777\<close> in the source.\<close>

definition perm0777 :: u32 where "perm0777 = 0x1FF"

text \<open>Qid type bits and open-mode bits of go9p.\<close>

definition QTDIR :: u8 where "QTDIR = 0x80"
definition QTEXCL :: u8 where "QTEXCL = 0x20"
definition OTRUNC :: u8 where "OTRUNC = 0x10"
definition ORCLOSE :: u8 where "ORCLOSE = 0x40"

lemmas mode_bit_defs =
  DMDIR_def DMAPPEND_def DMEXCL_def DMMOUNT_def DMAUTH_def DMTMP_def DMSYMLINK_def
  DMLINK_def DMDEVICE_def DMNAMEDPIPE_def DMSOCKET_def DMSETUID_def DMSETGID_def
  perm0777_def

text \<open>
  Go errors as values. \<open>P_Error\<close> is a \<^verbatim>\<open>*p.Error{Err, Errornum}\<close>; \<open>Errorf\<close> is an
  error built by \<^verbatim>\<open>fmt.Errorf\<close>, \<^verbatim>\<open>errors.Errorf\<close> or \<^verbatim>\<open>errors.New\<close>, given by its
  message; \<open>ErrNotExist\<close> and \<open>ErrNotEmpty\<close> are the sentinels of package tree that the
  dispatcher tests with \<^verbatim>\<open>errors.Is\<close>; \<open>Fault\<close> is any other error returned by the
  tree engine, the tree store or go9p.
\<close>

datatype error =
    P_Error string nat
  | Errorf string
  | ErrNotExist
  | ErrNotEmpty
  | Fault string

definition EPERM :: nat where "EPERM = 1"
definition ENOENT :: nat where "ENOENT = 2"
definition EINVAL :: nat where "EINVAL = 22"

text \<open>The errors of go9p's package srv that the dispatcher answers with.\<close>

definition Eperm :: error where "Eperm = P_Error ''permission denied'' EPERM"
definition Enoent :: error where "Enoent = P_Error ''file not found'' ENOENT"
definition Enotempty :: error where "Enotempty = P_Error ''directory not empty'' EPERM"

text \<open>The dispatcher's own error for a fid whose node was removed.\<close>

definition Eunlinked :: error where
  "Eunlinked = P_Error ''fid points to unlinked node'' EINVAL"

section \<open>Wire records\<close>

record Qid =
  q_Type :: u8
  q_Version :: u32
  q_Path :: u64

record Dir =
  d_Type :: u16
  d_Dev :: u32
  d_Qid :: Qid
  d_Mode :: u32
  d_Atime :: u32
  d_Mtime :: u32
  d_Length :: u64
  d_Name :: string
  d_Uid :: string
  d_Gid :: string
  d_Muid :: string

text \<open>
  A Wstat request carries a \<^verbatim>\<open>p.Dir\<close> in which a field that is not to be changed holds
  its "don't touch" value: all ones for an integer, the empty string for a string. The
  \<^verbatim>\<open>Change*\<close> predicates of go9p's \<^verbatim>\<open>p.Dir\<close> test a field against that value. The
  dispatcher quotes the documentation of \<^verbatim>\<open>ChangeIllegalFields\<close>: the illegal fields are
  type, dev and qid; its own comment adds that a request with a muid or an atime fails
  the test as well, which is why it blanks the two before calling it.
\<close>

definition ChangeLength :: "Dir \<Rightarrow> bool" where
  "ChangeLength d = (d_Length d \<noteq> - 1)"

definition ChangeName :: "Dir \<Rightarrow> bool" where
  "ChangeName d = (d_Name d \<noteq> [])"

definition ChangeMtime :: "Dir \<Rightarrow> bool" where
  "ChangeMtime d = (d_Mtime d \<noteq> - 1)"

definition ChangeMode :: "Dir \<Rightarrow> bool" where
  "ChangeMode d = (d_Mode d \<noteq> - 1)"

definition ChangeGID :: "Dir \<Rightarrow> bool" where
  "ChangeGID d = (d_Gid d \<noteq> [])"

definition ChangeTypeDevQid :: "Dir \<Rightarrow> bool" where
  "ChangeTypeDevQid d =
     (d_Type d \<noteq> - 1 \<or> d_Dev d \<noteq> - 1 \<or> q_Type (d_Qid d) \<noteq> - 1 \<or>
      q_Version (d_Qid d) \<noteq> - 1 \<or> q_Path (d_Qid d) \<noteq> - 1)"

definition ChangeIllegalFields :: "Dir \<Rightarrow> bool" where
  "ChangeIllegalFields d =
     (ChangeTypeDevQid d \<or> d_Atime d \<noteq> - 1 \<or> d_Muid d \<noteq> [])"

record Fcall =
  tc_Wname :: "string list"
  tc_Mode :: u8
  tc_Perm :: u32
  tc_Name :: string
  tc_Count :: u32
  tc_Offset :: u64
  tc_Data :: string
  tc_Dir :: Dir

text \<open>
  A request names its fid and, for Walk, the new fid, by number; \<^verbatim>\<open>r.Tc\<close> is the
  T-message.
\<close>

record Req =
  r_Fid :: nat
  r_Newfid :: nat
  r_Tc :: Fcall

text \<open>
  What a handler passes to the \<^verbatim>\<open>Respond*\<close> methods of \<^verbatim>\<open>srv.Req\<close>, one value per call, in
  call order. \<^verbatim>\<open>RespondError\<close> takes an \<^verbatim>\<open>interface{}\<close>: an error or a string.
\<close>

datatype response =
    Rerror error
  | RerrorString string
  | Rattach Qid
  | Rwalk "Qid list"
  | Ropen Qid u32
  | Rcreate Qid u32
  | Rread string
  | Rwrite u32
  | Rclunk
  | Rremove
  | Rstat Dir
  | Rwstat

section \<open>Mode policing: \<^verbatim>\<open>unsupportedModes\<close>, \<^verbatim>\<open>knownModes\<close>, \<^verbatim>\<open>checkMode\<close>\<close>

definition unsupportedModes :: "(u32 \<times> string) list" where
  "unsupportedModes =
    [(DMAPPEND, ''append-only files are not supported''),
     (DMMOUNT, ''mounted channels are not supported''),
     (DMAUTH, ''authentication files are not supported''),
     (DMTMP, ''temporary files are not supported''),
     (DMSYMLINK, ''symbolic links are not supported''),
     (DMLINK, ''hard links are not supported''),
     (DMDEVICE, ''device files are not supported''),
     (DMNAMEDPIPE, ''named pipes are not supported''),
     (DMSOCKET, ''sockets are not supported''),
     (DMSETUID, ''setuid files are not supported''),
     (DMSETGID, ''setgid files are not supported'')]"

text \<open>\<^verbatim>\<open>init\<close>: the known bits are the recognised ones and every unsupported one.\<close>

definition knownModes :: u32 where
  "knownModes =
     fold (\<lambda>(mode, _) known. known OR mode) unsupportedModes (perm0777 OR DMDIR OR DMEXCL)"

text \<open>\<^verbatim>\<open>%b\<close> of a \<^verbatim>\<open>uint32\<close>: its binary digits, without leading zeros.\<close>

definition fmt_b :: "u32 \<Rightarrow> string" where
  "fmt_b w =
     (let ds = dropWhile (\<lambda>c. c = CHR ''0'')
                 (map (\<lambda>i. if bit w i then CHR ''1'' else CHR ''0'') (rev [0..<32]))
      in if ds = [] then ''0'' else ds)"

text \<open>
  The loop \<^verbatim>\<open>for bit, err := range unsupportedModes\<close>. Go visits a map in an order that
  is not specified and differs between runs, so the order of the visit is an argument:
  the entries of the table in the order this one iteration takes them.
\<close>

fun rangeUnsupported :: "(u32 \<times> string) list \<Rightarrow> u32 \<Rightarrow> error option" where
  "rangeUnsupported [] mode = None"
| "rangeUnsupported ((b, msg) # rest) mode =
     (if mode AND b \<noteq> 0 then Some (Errorf msg) else rangeUnsupported rest mode)"

text \<open>
  \<^verbatim>\<open>checkMode(node, mode)\<close>. The node is \<^verbatim>\<open>nil\<close> on Create; of a node the function only
  asks \<^verbatim>\<open>IsDir()\<close>, so the model takes that answer.
\<close>

definition checkMode :: "(u32 \<times> string) list \<Rightarrow> bool option \<Rightarrow> u32 \<Rightarrow> error option" where
  "checkMode order nodeIsDir mode =
     (if nodeIsDir = Some True \<and> mode AND DMDIR = 0
        then Some (Errorf ''a directory cannot become a regular file'')
      else if nodeIsDir = Some False \<and> mode AND DMDIR \<noteq> 0
        then Some (Errorf ''a regular file cannot become a directory'')
      else (case rangeUnsupported order mode of
              Some err \<Rightarrow> Some err
            | None \<Rightarrow>
                (let extra = mode AND NOT knownModes
                 in if extra \<noteq> 0
                    then Some (Errorf (''unrecognized mode bits: '' @ fmt_b extra))
                    else None)))"

section \<open>The tree engine and the tree store, as the dispatcher uses them\<close>

text \<open>
  Packages tree and storage are not among the sources; the dispatcher and p9util call
  into them. Their data and the operations the dispatcher calls are modelled here from
  the specification (sections 3.3 to 3.5 and 4.4). An operation that does I/O can fail:
  whether a call fails is an input of the model (\<open>e_fault\<close> below).
\<close>

text \<open>
  Modelled from the spec: \<^verbatim>\<open>tree.NodeInfo\<close>, what \<^verbatim>\<open>node.Info()\<close> returns; p9util reads
  exactly these fields.
\<close>

record NodeInfo =
  ni_ID :: u64
  ni_Version :: u32
  ni_Mode :: u32
  ni_Name :: string
  ni_Size :: u64
  ni_Modified :: u32

text \<open>
  Modelled from the spec: \<^verbatim>\<open>tree.Node\<close> (section 3.3): the attributes, the reference
  count, the unlinked flag, the parent reference (the root's parent is itself), the
  children of a directory by name, the bytes of a file and the pointer of the stored
  body. A \<^verbatim>\<open>*tree.Node\<close> is a number, looked up in the tree.
\<close>

record Node =
  n_info :: NodeInfo
  n_refs :: int
  n_unlinked :: bool
  n_parent :: nat
  n_children :: "(string \<times> nat) list"
  n_data :: string
  n_pointer :: pointer

text \<open>Modelled from the spec: a revision (section 3.4).\<close>

record Revision =
  rev_root :: pointer
  rev_parent :: pointer
  rev_host :: string
  rev_when :: u32

record Tree =
  t_nodes :: "nat \<Rightarrow> Node option"
  t_root :: nat
  t_next :: nat
  t_revision :: "Revision option"

text \<open>Modelled from the spec: the two base pointers of the tree store (section 3.5).\<close>

record Store =
  st_localBase :: pointer
  st_remoteBase :: pointer
  st_revisions :: "Revision list"

text \<open>Modelled from the spec: the directory bit of a node's mode, \<^verbatim>\<open>tree.DMDIR\<close>.\<close>

definition tree_DMDIR :: u32 where "tree_DMDIR = 0x80000000"

definition IsDir :: "Node \<Rightarrow> bool" where
  "IsDir node = (ni_Mode (n_info node) AND tree_DMDIR \<noteq> 0)"

definition IsRoot :: "nat \<Rightarrow> Node \<Rightarrow> bool" where
  "IsRoot n node = (n_parent node = n)"

definition Unlinked :: "Node \<Rightarrow> bool" where
  "Unlinked node = n_unlinked node"

subsection \<open>p9util: from a node to a qid and a directory entry\<close>

text \<open>\<^verbatim>\<open>NodeQID\<close> and \<^verbatim>\<open>NodeQIDVar\<close> of \<^verbatim>\<open>internal/p9util/translation.go\<close>.\<close>

definition NodeQID :: "Node \<Rightarrow> Qid" where
  "NodeQID node =
     (let ni = n_info node
      in \<lparr>q_Type = (if ni_Mode ni AND tree_DMDIR \<noteq> 0 then QTDIR else 0),
          q_Version = ni_Version ni,
          q_Path = ni_ID ni\<rparr>)"

text \<open>
  \<^verbatim>\<open>NodeDir\<close> and \<^verbatim>\<open>NodeDirVar\<close>; \<^verbatim>\<open>NodeUID\<close> and \<^verbatim>\<open>NodeGID\<close> are the names of the user
  and group the server runs as. The fields the function does not set keep Go's zero
  value.
\<close>

definition NodeDir :: "string \<Rightarrow> string \<Rightarrow> Node \<Rightarrow> Dir" where
  "NodeDir NodeUID NodeGID node =
     (let ni = n_info node
      in \<lparr>d_Type = 0, d_Dev = 0,
          d_Qid = \<lparr>q_Type = (if ni_Mode ni AND tree_DMDIR \<noteq> 0 then QTDIR else 0),
                   q_Version = ni_Version ni,
                   q_Path = ni_ID ni\<rparr>,
          d_Mode = ni_Mode ni,
          d_Atime = ni_Modified ni,
          d_Mtime = ni_Modified ni,
          d_Length = ni_Size ni,
          d_Name = ni_Name ni,
          d_Uid = NodeUID,
          d_Gid = NodeGID,
          d_Muid = []\<rparr>)"

subsection \<open>The state of the server\<close>

text \<open>
  \<^verbatim>\<open>srv.Fid.Aux\<close> is \<^verbatim>\<open>nil\<close>, the control file \<^verbatim>\<open>ops.c\<close>, or a \<^verbatim>\<open>*fsNode\<close>. An
  \<^verbatim>\<open>fsNode\<close> is allocated on the heap and two fids can hold the same pointer (a Walk
  without names stores the pointer of the old fid in the new one), so an \<^verbatim>\<open>fsNode\<close> is
  named by its address and looked up in a store.
\<close>

datatype Aux = AuxNil | AuxCtl | AuxFsNode nat

record fsNode =
  fs_Node :: nat
  fs_dirb :: string
  fs_lock :: "u64 option"

record ctl =
  c_D :: Dir
  c_contents :: string

text \<open>
  The calls of the push command into the tree engine and the tree store, recorded in
  call order so that the order can be stated.
\<close>

datatype call =
    Call_Flush
  | Call_Seal
  | Call_StoreRevision Revision
  | Call_SetRevision Revision
  | Call_SetRemoteBasePointer pointer
  | Call_SetLocalBasePointer pointer

text \<open>
  The fields of \<^verbatim>\<open>ops\<close> (\<open>ops_tree\<close>, \<open>ops_treeStore\<close>, \<open>ops_c\<close>), the \<^verbatim>\<open>Aux\<close> of the
  fids of go9p's server, the heap of \<^verbatim>\<open>fsNode\<close>s, and the two process-wide tables of
  package main: the lock table (qid path to owning fid) and the "more mode" table (qid
  path to the mode bits kept outside the node, that is DMEXCL).
\<close>

record ops =
  ops_tree :: Tree
  ops_treeStore :: Store
  ops_c :: ctl
  fids :: "nat \<Rightarrow> Aux"
  heap :: "nat \<Rightarrow> fsNode option"
  nextAddr :: nat
  locks :: "u64 \<Rightarrow> nat option"
  moreModes :: "u64 \<Rightarrow> u32"
  calls :: "call list"

subsection \<open>The environment of a request\<close>

datatype fallible =
    F_InitRread
  | F_Walk
  | F_Grow
  | F_Add
  | F_Remove
  | F_Truncate
  | F_WriteAt
  | F_ReadAt
  | F_DirRead
  | F_Flush
  | F_Seal
  | F_StoreRevision
  | F_LocalBasePointer
  | F_RemoteBasePointer
  | F_SetLocalBasePointer
  | F_SetRemoteBasePointer
  | F_NewTree pointer

text \<open>
  What a request takes from outside the dispatcher: the clock, the host and user names,
  the order in which Go walks the map \<^verbatim>\<open>unsupportedModes\<close> this time, which calls into
  the absent packages fail (\<open>e_fault\<close>), the worklog that \<^verbatim>\<open>PullWorklog\<close> computes, the
  text renderings of pointers, errors and revisions (\<^verbatim>\<open>%v\<close>, \<^verbatim>\<open>%+v\<close>, \<^verbatim>\<open>%q\<close>,
  \<^verbatim>\<open>ShortString\<close>), the key of a revision, the wire form of a directory entry, and the
  control commands whose whole work is done inside the absent packages (\<open>e_other\<close>).
\<close>

record env =
  e_now :: u32
  e_host :: string
  e_NodeUID :: string
  e_NodeGID :: string
  e_mapOrder :: "(u32 \<times> string) list"
  e_fault :: "fallible \<Rightarrow> error option"
  e_PullWorklog :: "error + string"
  e_showPointer :: "pointer \<Rightarrow> string"
  e_plusV :: "error \<Rightarrow> string"
  e_q :: "string \<Rightarrow> string"
  e_Key :: "Revision \<Rightarrow> pointer"
  e_ShortString :: "Revision \<Rightarrow> string"
  e_PackDir :: "Dir \<Rightarrow> string"
  e_other :: "string \<Rightarrow> string list \<Rightarrow> ops \<Rightarrow> (error option \<times> string \<times> ops) option"

subsection \<open>Node and tree operations\<close>

definition upd_node :: "Tree \<Rightarrow> nat \<Rightarrow> (Node \<Rightarrow> Node) \<Rightarrow> Tree" where
  "upd_node t n f =
     (case t_nodes t n of
        None \<Rightarrow> t
      | Some node \<Rightarrow> t\<lparr>t_nodes := (t_nodes t)(n \<mapsto> f node)\<rparr>)"

definition bump :: "Node \<Rightarrow> Node" where
  "bump node = node\<lparr>n_info := (n_info node)\<lparr>ni_Version := ni_Version (n_info node) + 1\<rparr>\<rparr>"

text \<open>Modelled from the spec: \<^verbatim>\<open>node.Ref\<close> and \<^verbatim>\<open>node.Unref\<close>, the reference count.\<close>

definition node_Ref :: "Tree \<Rightarrow> nat \<Rightarrow> Tree" where
  "node_Ref t n = upd_node t n (\<lambda>node. node\<lparr>n_refs := n_refs node + 1\<rparr>)"

definition node_Unref :: "Tree \<Rightarrow> nat \<Rightarrow> Tree" where
  "node_Unref t n = upd_node t n (\<lambda>node. node\<lparr>n_refs := n_refs node - 1\<rparr>)"

text \<open>
  Modelled from the spec: \<^verbatim>\<open>tree.Walk\<close> (section 4.4.2). It resolves the names one after
  the other from the given node, \<^verbatim>\<open>..\<close> through the parent reference, and returns the
  nodes of the longest prefix it resolves, with \<^verbatim>\<open>ErrNotExist\<close> when a name does not
  resolve. The dispatcher treats a not-exist error with at least one node like no error,
  so the model need not decide which of the two the engine returns for a proper prefix.
\<close>

fun tree_resolve :: "Tree \<Rightarrow> nat \<Rightarrow> string list \<Rightarrow> nat list \<times> error option" where
  "tree_resolve t n [] = ([], None)"
| "tree_resolve t n (name # names) =
     (case t_nodes t n of
        None \<Rightarrow> ([], Some ErrNotExist)
      | Some node \<Rightarrow>
          (if name = ''..''
           then (let (ns, err) = tree_resolve t (n_parent node) names
                 in (n_parent node # ns, err))
           else (case map_of (n_children node) name of
                   None \<Rightarrow> ([], Some ErrNotExist)
                 | Some child \<Rightarrow>
                     (let (ns, err) = tree_resolve t child names in (child # ns, err)))))"

text \<open>Loading a child from the store can fail; then the walk fails with that error.\<close>

definition tree_Walk :: "env \<Rightarrow> Tree \<Rightarrow> nat \<Rightarrow> string list \<Rightarrow> nat list \<times> error option" where
  "tree_Walk e t n names =
     (case e_fault e F_Walk of
        Some err \<Rightarrow> ([], Some err)
      | None \<Rightarrow> tree_resolve t n names)"

text \<open>Modelled from the spec: \<^verbatim>\<open>tree.Grow\<close> loads the children of a directory.\<close>

definition tree_Grow :: "env \<Rightarrow> Tree \<Rightarrow> nat \<Rightarrow> error option" where
  "tree_Grow e t n = e_fault e F_Grow"

text \<open>
  Modelled from the spec: \<^verbatim>\<open>tree.Add\<close> makes a fresh node under a directory; a name
  that exists and a parent that is no directory are errors.
\<close>

definition tree_Add :: "env \<Rightarrow> Tree \<Rightarrow> nat \<Rightarrow> string \<Rightarrow> u32 \<Rightarrow> error + (nat \<times> Tree)" where
  "tree_Add e t parent name perm =
     (case e_fault e F_Add of
        Some err \<Rightarrow> Inl err
      | None \<Rightarrow>
          (case t_nodes t parent of
             None \<Rightarrow> Inl (Fault ''no parent'')
           | Some pnode \<Rightarrow>
               if \<not> IsDir pnode then Inl (Errorf ''not a directory'')
               else if map_of (n_children pnode) name \<noteq> None then Inl (Errorf ''exists'')
               else
                 (let n = t_next t;
                      node = \<lparr>n_info = \<lparr>ni_ID = of_nat n, ni_Version = 1, ni_Mode = perm,
                                         ni_Name = name, ni_Size = 0, ni_Modified = e_now e\<rparr>,
                              n_refs = 0, n_unlinked = False, n_parent = parent,
                              n_children = [], n_data = [], n_pointer = []\<rparr>;
                      pnode' = bump (pnode\<lparr>n_children := (name, n) # n_children pnode\<rparr>)
                  in Inr (n, t\<lparr>t_nodes := (t_nodes t)(parent \<mapsto> pnode', n \<mapsto> node),
                               t_next := n + 1\<rparr>))))"

text \<open>
  Modelled from the spec: \<^verbatim>\<open>tree.Remove\<close> marks the node unlinked and drops it from its
  parent; a directory with children is not removed (\<^verbatim>\<open>ErrNotEmpty\<close>).
\<close>

definition tree_Remove :: "env \<Rightarrow> Tree \<Rightarrow> nat \<Rightarrow> error option \<times> Tree" where
  "tree_Remove e t n =
     (case e_fault e F_Remove of
        Some err \<Rightarrow> (Some err, t)
      | None \<Rightarrow>
          (case t_nodes t n of
             None \<Rightarrow> (Some (Fault ''no node''), t)
           | Some node \<Rightarrow>
               if IsDir node \<and> n_children node \<noteq> [] then (Some ErrNotEmpty, t)
               else
                 (let t1 = upd_node t (n_parent node)
                             (\<lambda>p. bump (p\<lparr>n_children := filter (\<lambda>(k, c). c \<noteq> n) (n_children p)\<rparr>))
                  in (None, upd_node t1 n (\<lambda>x. x\<lparr>n_unlinked := True\<rparr>)))))"

text \<open>
  Modelled from the spec: \<^verbatim>\<open>node.Truncate\<close>, \<^verbatim>\<open>node.WriteAt\<close> and \<^verbatim>\<open>node.ReadAt\<close> on the
  bytes of a file. A change sets the size and increments the version.
\<close>

definition resize :: "nat \<Rightarrow> string \<Rightarrow> string" where
  "resize k bs = take k bs @ replicate (k - length bs) (CHR 0x00)"

definition node_Truncate :: "env \<Rightarrow> Tree \<Rightarrow> nat \<Rightarrow> u64 \<Rightarrow> error + Tree" where
  "node_Truncate e t n sz =
     (case e_fault e F_Truncate of
        Some err \<Rightarrow> Inl err
      | None \<Rightarrow>
          Inr (upd_node t n
                 (\<lambda>node. bump (node\<lparr>n_data := resize (unat sz) (n_data node),
                                     n_info := (n_info node)\<lparr>ni_Size := sz\<rparr>\<rparr>))))"

definition node_WriteAt :: "env \<Rightarrow> Tree \<Rightarrow> nat \<Rightarrow> string \<Rightarrow> u64 \<Rightarrow> error + Tree" where
  "node_WriteAt e t n bs off =
     (case e_fault e F_WriteAt of
        Some err \<Rightarrow> Inl err
      | None \<Rightarrow>
          Inr (upd_node t n
                 (\<lambda>node.
                    let old = n_data node;
                        new = resize (unat off) old @ bs @ drop (unat off + length bs) old
                    in bump (node\<lparr>n_data := new,
                                   n_info := (n_info node)\<lparr>ni_Size := of_nat (length new),
                                                            ni_Modified := e_now e\<rparr>\<rparr>))))"

definition node_ReadAt :: "env \<Rightarrow> Node \<Rightarrow> u32 \<Rightarrow> u64 \<Rightarrow> error + string" where
  "node_ReadAt e node count off =
     (case e_fault e F_ReadAt of
        Some err \<Rightarrow> Inl err
      | None \<Rightarrow> Inr (take (unat count) (drop (unat off) (n_data node))))"

text \<open>
  Modelled from the spec: \<^verbatim>\<open>node.Rename\<close>, \<^verbatim>\<open>node.Touch\<close> and \<^verbatim>\<open>node.SetPerm\<close> change one
  attribute each; none returns an error.
\<close>

definition node_Rename :: "Tree \<Rightarrow> nat \<Rightarrow> string \<Rightarrow> Tree" where
  "node_Rename t n name =
     (case t_nodes t n of
        None \<Rightarrow> t
      | Some node \<Rightarrow>
          (let t1 = upd_node t (n_parent node)
                      (\<lambda>p. p\<lparr>n_children :=
                                map (\<lambda>(k, c). if c = n then (name, c) else (k, c)) (n_children p)\<rparr>)
           in upd_node t1 n (\<lambda>x. bump (x\<lparr>n_info := (n_info x)\<lparr>ni_Name := name\<rparr>\<rparr>))))"

definition node_Touch :: "Tree \<Rightarrow> nat \<Rightarrow> u32 \<Rightarrow> Tree" where
  "node_Touch t n mtime =
     upd_node t n (\<lambda>x. bump (x\<lparr>n_info := (n_info x)\<lparr>ni_Modified := mtime\<rparr>\<rparr>))"

definition node_SetPerm :: "Tree \<Rightarrow> nat \<Rightarrow> u32 \<Rightarrow> Tree" where
  "node_SetPerm t n perm =
     upd_node t n
       (\<lambda>x. bump (x\<lparr>n_info := (n_info x)\<lparr>ni_Mode := (ni_Mode (n_info x) AND NOT perm0777) OR perm\<rparr>\<rparr>))"

text \<open>Modelled from the spec: \<^verbatim>\<open>node.Children\<close>, the loaded children of a directory.\<close>

definition Children :: "Tree \<Rightarrow> Node \<Rightarrow> Node list" where
  "Children t node = List.map_filter (\<lambda>(k, c). t_nodes t c) (n_children node)"

text \<open>
  Modelled from the spec: \<^verbatim>\<open>p9util.DirBuffer\<close> holds the wire form of the entries written
  to it; a read returns the bytes at the offset.
\<close>

definition dirb_Read :: "env \<Rightarrow> string \<Rightarrow> u32 \<Rightarrow> u64 \<Rightarrow> error + string" where
  "dirb_Read e buf count off =
     (case e_fault e F_DirRead of
        Some err \<Rightarrow> Inl err
      | None \<Rightarrow> Inr (take (unat count) (drop (unat off) buf)))"

text \<open>Modelled from the spec: the control file serves its buffered text by offset.\<close>

definition ctl_read :: "ctl \<Rightarrow> u32 \<Rightarrow> u64 \<Rightarrow> string" where
  "ctl_read c count off = take (unat count) (drop (unat off) (c_contents c))"

subsection \<open>The lock table and the more-mode table of package main\<close>

text \<open>
  Modelled from the spec: \<^verbatim>\<open>lockNode\<close> and \<^verbatim>\<open>unlockNode\<close> (their file is not among the
  sources). The lock table maps a qid path to the fid that owns the lock; \<^verbatim>\<open>lockNode\<close>
  returns \<^verbatim>\<open>nil\<close> when another fid owns the lock of the node's qid path, and otherwise
  enters the fid as owner and returns the lock, which the model names by its qid path.
  \<^verbatim>\<open>unlockNode\<close> removes the entry.
\<close>

definition lockNode :: "(u64 \<Rightarrow> nat option) \<Rightarrow> nat \<Rightarrow> Node \<Rightarrow> u64 option \<times> (u64 \<Rightarrow> nat option)" where
  "lockNode table fid node =
     (let path = ni_ID (n_info node)
      in case table path of
           None \<Rightarrow> (Some path, table(path \<mapsto> fid))
         | Some owner \<Rightarrow>
             if owner = fid then (Some path, table) else (None, table))"

definition unlockNode :: "(u64 \<Rightarrow> nat option) \<Rightarrow> u64 \<Rightarrow> (u64 \<Rightarrow> nat option)" where
  "unlockNode table l = table(l := None)"

text \<open>
  Modelled from the spec: \<^verbatim>\<open>moreMode\<close> and \<^verbatim>\<open>setMoreMode\<close>, the side table that keeps
  the DMEXCL bit per qid path.
\<close>

definition moreMode :: "(u64 \<Rightarrow> u32) \<Rightarrow> u64 \<Rightarrow> u32" where
  "moreMode table path = table path"

definition setMoreMode :: "(u64 \<Rightarrow> u32) \<Rightarrow> u64 \<Rightarrow> u32 \<Rightarrow> (u64 \<Rightarrow> u32)" where
  "setMoreMode table path m = table(path := m)"

subsection \<open>The tree store and the engine calls of pull and push\<close>

text \<open>
  Modelled from the spec: the accessors of the two base pointers, \<^verbatim>\<open>StoreRevision\<close>,
  \<^verbatim>\<open>tree.NewTree\<close> for a stored revision, \<^verbatim>\<open>Flush\<close>, \<^verbatim>\<open>Seal\<close> and \<^verbatim>\<open>NewRevision\<close>. A
  call that fails leaves the store as it was. What \<^verbatim>\<open>Flush\<close> and \<^verbatim>\<open>Seal\<close> write is below
  the level of this model; that they were called is recorded in \<open>calls\<close>.
\<close>

definition LocalBasePointer :: "env \<Rightarrow> Store \<Rightarrow> error + pointer" where
  "LocalBasePointer e st =
     (case e_fault e F_LocalBasePointer of Some err \<Rightarrow> Inl err | None \<Rightarrow> Inr (st_localBase st))"

definition RemoteBasePointer :: "env \<Rightarrow> Store \<Rightarrow> error + pointer" where
  "RemoteBasePointer e st =
     (case e_fault e F_RemoteBasePointer of Some err \<Rightarrow> Inl err | None \<Rightarrow> Inr (st_remoteBase st))"

definition SetLocalBasePointer :: "env \<Rightarrow> Store \<Rightarrow> pointer \<Rightarrow> error + Store" where
  "SetLocalBasePointer e st key =
     (case e_fault e F_SetLocalBasePointer of
        Some err \<Rightarrow> Inl err
      | None \<Rightarrow> Inr (st\<lparr>st_localBase := key\<rparr>))"

definition SetRemoteBasePointer :: "env \<Rightarrow> Store \<Rightarrow> pointer \<Rightarrow> error + Store" where
  "SetRemoteBasePointer e st key =
     (case e_fault e F_SetRemoteBasePointer of
        Some err \<Rightarrow> Inl err
      | None \<Rightarrow> Inr (st\<lparr>st_remoteBase := key\<rparr>))"

definition StoreRevision :: "env \<Rightarrow> Store \<Rightarrow> Revision \<Rightarrow> error + Store" where
  "StoreRevision e st revision =
     (case e_fault e F_StoreRevision of
        Some err \<Rightarrow> Inl err
      | None \<Rightarrow> Inr (st\<lparr>st_revisions := revision # st_revisions st\<rparr>))"

definition NewTree :: "env \<Rightarrow> pointer \<Rightarrow> error option" where
  "NewTree e key = e_fault e (F_NewTree key)"

definition tree_Flush :: "env \<Rightarrow> Tree \<Rightarrow> error option" where
  "tree_Flush e t = e_fault e F_Flush"

definition tree_Seal :: "env \<Rightarrow> Tree \<Rightarrow> error option" where
  "tree_Seal e t = e_fault e F_Seal"

definition NewRevision :: "env \<Rightarrow> Node \<Rightarrow> pointer \<Rightarrow> Revision" where
  "NewRevision e rootnode parent =
     \<lparr>rev_root = n_pointer rootnode, rev_parent = parent, rev_host = e_host e,
      rev_when = e_now e\<rparr>"

definition called :: "ops \<Rightarrow> call \<Rightarrow> ops" where
  "called s c = s\<lparr>calls := calls s @ [c]\<rparr>"

section \<open>The control file: \<^verbatim>\<open>runCommand\<close>\<close>

text \<open>
  \<^verbatim>\<open>strings.Fields\<close>: the fields of a string between runs of white space, as
  \<^verbatim>\<open>unicode.IsSpace\<close> defines it. \<open>spaceWidth\<close> is the number of bytes of the white-space
  rune at the head of the string in UTF-8, 0 when there is none: the ASCII ones (tab to
  carriage return, space), U+0085, U+00A0, U+1680, U+2000 to U+200A, U+2028, U+2029,
  U+202F, U+205F and U+3000.
\<close>

definition byte :: "char \<Rightarrow> nat" where
  "byte c = of_char c"

fun spaceWidth :: "string \<Rightarrow> nat" where
  "spaceWidth [] = 0"
| "spaceWidth [c] = (if byte c = 0x20 \<or> (0x09 \<le> byte c \<and> byte c \<le> 0x0D) then 1 else 0)"
| "spaceWidth [c, d] =
     (if byte c = 0x20 \<or> (0x09 \<le> byte c \<and> byte c \<le> 0x0D) then 1
      else if byte c = 0xC2 \<and> (byte d = 0x85 \<or> byte d = 0xA0) then 2
      else 0)"
| "spaceWidth (c # d # f # rest) =
     (if byte c = 0x20 \<or> (0x09 \<le> byte c \<and> byte c \<le> 0x0D) then 1
      else if byte c = 0xC2 \<and> (byte d = 0x85 \<or> byte d = 0xA0) then 2
      else if byte c = 0xE1 \<and> byte d = 0x9A \<and> byte f = 0x80 then 3
      else if byte c = 0xE2 \<and> byte d = 0x80 \<and>
              ((0x80 \<le> byte f \<and> byte f \<le> 0x8A) \<or> byte f = 0xA8 \<or> byte f = 0xA9 \<or> byte f = 0xAF)
        then 3
      else if byte c = 0xE2 \<and> byte d = 0x81 \<and> byte f = 0x9F then 3
      else if byte c = 0xE3 \<and> byte d = 0x80 \<and> byte f = 0x80 then 3
      else 0)"

text \<open>
  \<open>fieldsFrom s cur skip\<close>: \<open>cur\<close> is the field being read, reversed; \<open>skip\<close> counts the
  bytes still to pass of a white-space rune of several bytes.
\<close>

fun fieldsFrom :: "string \<Rightarrow> string \<Rightarrow> nat \<Rightarrow> string list" where
  "fieldsFrom [] cur skip = (if cur = [] then [] else [rev cur])"
| "fieldsFrom (c # cs) cur skip =
     (if 0 < skip then fieldsFrom cs cur (skip - 1)
      else if 0 < spaceWidth (c # cs)
        then (if cur = [] then [] else [rev cur]) @ fieldsFrom cs [] (spaceWidth (c # cs) - 1)
      else fieldsFrom cs (c # cur) 0)"

definition Fields :: "string \<Rightarrow> string list" where
  "Fields s = fieldsFrom s [] 0"

definition nl :: string where
  "nl = [CHR 0x0A]"

text \<open>
  The \<^verbatim>\<open>pull\<close> case of \<^verbatim>\<open>runCommand\<close>. The result is the error returned, the text written
  to the output buffer, and the state. \<^verbatim>\<open>output(err)\<close> writes \<^verbatim>\<open>%+v\<close> of the error to the
  buffer and returns the error.
\<close>

definition pull :: "env \<Rightarrow> ops \<Rightarrow> (error option \<times> string \<times> ops) option" where
  "pull e s =
     (case LocalBasePointer e (ops_treeStore s) of
        Inl err \<Rightarrow> Some (Some err, e_plusV e err, s)
      | Inr localbase \<Rightarrow>
     (case RemoteBasePointer e (ops_treeStore s) of
        Inl err \<Rightarrow> Some (Some err, e_plusV e err, s)
      | Inr remotebase \<Rightarrow>
          if localbase = remotebase
          then Some (None, ''local base matches remote base, pull is a no-op'' @ nl, s)
          else
     (case NewTree e localbase of
        Some err \<Rightarrow> Some (Some err, e_plusV e err, s)
      | None \<Rightarrow>
     (case NewTree e remotebase of
        Some err \<Rightarrow> Some (Some err, e_plusV e err, s)
      | None \<Rightarrow>
     (case e_PullWorklog e of
        Inl err \<Rightarrow> Some (Some err, e_plusV e err, s)
      | Inr commands \<Rightarrow>
          if length commands = 0
          then
            (let out = ''no commands to run, pull is a no-op'' @ nl;
                 s1 = called s (Call_SetLocalBasePointer remotebase)
             in case SetLocalBasePointer e (ops_treeStore s1) remotebase of
                  Inl err \<Rightarrow> Some (Some err, out @ e_plusV e err, s1)
                | Inr st \<Rightarrow> Some (None, out, s1\<lparr>ops_treeStore := st\<rparr>))
          else Some (None, commands, s))))))"

text \<open>
  The \<^verbatim>\<open>push\<close> case of \<^verbatim>\<open>runCommand\<close>, in two parts: up to \<^verbatim>\<open>Seal\<close>, and from the new
  revision on.
\<close>

definition push_revision :: "env \<Rightarrow> ops \<Rightarrow> pointer \<Rightarrow> string \<Rightarrow> (error option \<times> string \<times> ops) option" where
  "push_revision e s remotebase out =
     (case t_nodes (ops_tree s) (t_root (ops_tree s)) of
        None \<Rightarrow> None
      | Some localroot \<Rightarrow>
          (let revision = NewRevision e localroot remotebase;
               s1 = called s (Call_StoreRevision revision)
           in case StoreRevision e (ops_treeStore s1) revision of
                Inl err \<Rightarrow> Some (Some err, out @ e_plusV e err, s1)
              | Inr st1 \<Rightarrow>
                  (let s2 = called (s1\<lparr>ops_treeStore := st1,
                                       ops_tree := (ops_tree s1)\<lparr>t_revision := Some revision\<rparr>\<rparr>)
                              (Call_SetRevision revision);
                       out2 = out @ ''push: revision created: '' @ e_ShortString e revision @ nl;
                       s3 = called s2 (Call_SetRemoteBasePointer (e_Key e revision))
                   in case SetRemoteBasePointer e (ops_treeStore s3) (e_Key e revision) of
                        Inl err \<Rightarrow> Some (Some err, out2 @ e_plusV e err, s3)
                      | Inr st2 \<Rightarrow>
                          (let out3 = out2 @ ''push: updated remote base pointer: '' @
                                        e_showPointer e (e_Key e revision) @ nl;
                               s4 = called (s3\<lparr>ops_treeStore := st2\<rparr>)
                                      (Call_SetLocalBasePointer (e_Key e revision))
                           in case SetLocalBasePointer e (ops_treeStore s4) (e_Key e revision) of
                                Inl err \<Rightarrow> Some (Some err, out3 @ e_plusV e err, s4)
                              | Inr st3 \<Rightarrow>
                                  Some (None,
                                        out3 @ ''push: updated local base pointer: '' @
                                          e_showPointer e (e_Key e revision) @ nl,
                                        s4\<lparr>ops_treeStore := st3\<rparr>)))))"

definition push :: "env \<Rightarrow> ops \<Rightarrow> (error option \<times> string \<times> ops) option" where
  "push e s =
     (case LocalBasePointer e (ops_treeStore s) of
        Inl err \<Rightarrow> Some (Some err, e_plusV e err, s)
      | Inr localbase \<Rightarrow>
     (case RemoteBasePointer e (ops_treeStore s) of
        Inl err \<Rightarrow> Some (Some err, e_plusV e err, s)
      | Inr remotebase \<Rightarrow>
          if localbase \<noteq> remotebase
          then
            (let err = Errorf (''local base '' @ e_showPointer e localbase @
                               '' does not match remote base '' @ e_showPointer e remotebase @
                               '', pull first'')
             in Some (Some err, e_plusV e err, s))
          else
            (let out1 = ''local base matches remote base, push allowed'' @ nl;
                 s1 = called s Call_Flush
             in case tree_Flush e (ops_tree s1) of
                  Some err \<Rightarrow> Some (Some err, out1 @ e_plusV e err, s1)
                | None \<Rightarrow>
                    (let out2 = out1 @ ''push: flushed'' @ nl;
                         s2 = called s1 Call_Seal
                     in case tree_Seal e (ops_tree s2) of
                          Some err \<Rightarrow> Some (Some err, out2 @ e_plusV e err, s2)
                        | None \<Rightarrow>
                            push_revision e s2 remotebase (out2 @ ''push: sealed'' @ nl)))))"

text \<open>
  The commands of the switch that the model hands to \<open>e_other\<close>: all their work is done
  inside packages tree, storage and diff.
\<close>

definition otherCommands :: "string list" where
  "otherCommands =
     [''diff'', ''level'', ''lsof'', ''dump'', ''keep-local-for'', ''rename'', ''unlink'',
      ''graft'', ''trim'', ''flush'']"

text \<open>
  \<^verbatim>\<open>runCommand(ops, cmd)\<close>. An empty command returns before the deferred function is
  set up; after that the deferred function stores the output buffer as the contents of
  the control file on every return.
\<close>

definition runCommand :: "env \<Rightarrow> ops \<Rightarrow> string \<Rightarrow> (error option \<times> ops) option" where
  "runCommand e s cmd =
     (case Fields cmd of
        [] \<Rightarrow> Some (None, s)
      | name # args \<Rightarrow>
          (case (if name = ''pull'' then pull e s
                 else if name = ''push'' then push e s
                 else if name \<in> set otherCommands then e_other e name args s
                 else Some (Some (Errorf (''command not recognized: '' @ e_q e name)), [], s)) of
             None \<Rightarrow> None
           | Some (err, out, s1) \<Rightarrow>
               Some (err,
                     s1\<lparr>ops_c := (ops_c s1)\<lparr>c_contents := out,
                                               c_D := (c_D (ops_c s1))\<lparr>d_Length := of_nat (length out)\<rparr>\<rparr>\<rparr>)))"

section \<open>The 9P handlers of \<^verbatim>\<open>ops\<close>\<close>

text \<open>
  A handler returns the new state and the responses it sent, in order. \<open>None\<close> is a
  panic: the type assertion \<^verbatim>\<open>r.Fid.Aux.(*fsNode)\<close> on a \<^verbatim>\<open>nil\<close> interface, or a
  pointer that the state does not hold. The mutex \<^verbatim>\<open>ops.mu\<close> makes every handler run
  alone, so a handler is a function of the state.
\<close>

definition ops_FidDestroy :: "ops \<Rightarrow> nat \<Rightarrow> ops option" where
  "ops_FidDestroy s fid =
     (case fids s fid of
        AuxNil \<Rightarrow> Some s
      | AuxCtl \<Rightarrow> Some s
      | AuxFsNode a \<Rightarrow>
          (case heap s a of
             None \<Rightarrow> None
           | Some node \<Rightarrow>
               (let s1 = s\<lparr>ops_tree := node_Unref (ops_tree s) (fs_Node node)\<rparr>
                in case fs_lock node of
                     None \<Rightarrow> Some s1
                   | Some l \<Rightarrow>
                       Some (s1\<lparr>locks := unlockNode (locks s1) l,
                                 heap := (heap s1)(a \<mapsto> node\<lparr>fs_lock := None\<rparr>)\<rparr>))))"

definition ops_Attach :: "ops \<Rightarrow> Req \<Rightarrow> (ops \<times> response list) option" where
  "ops_Attach s r =
     (let root = t_root (ops_tree s);
          t1 = node_Ref (ops_tree s) root
      in case t_nodes t1 root of
           None \<Rightarrow> None
         | Some rootnode \<Rightarrow>
             Some (s\<lparr>ops_tree := t1,
                      heap := (heap s)(nextAddr s \<mapsto> \<lparr>fs_Node = root, fs_dirb = [], fs_lock = None\<rparr>),
                      nextAddr := nextAddr s + 1,
                      fids := (fids s)(r_Fid r := AuxFsNode (nextAddr s))\<rparr>,
                   [Rattach (NodeQID rootnode)]))"

text \<open>
  The end of \<^verbatim>\<open>Walk\<close>, from the result of \<^verbatim>\<open>ops.tree.Walk\<close> on: the qids of the nodes
  walked, and the new fid bound to a fresh \<^verbatim>\<open>fsNode\<close> of the last node, with a
  reference taken, when every name was walked.
\<close>

definition walk_respond :: "ops \<Rightarrow> Req \<Rightarrow> nat list \<Rightarrow> (ops \<times> response list) option" where
  "walk_respond s r nodes =
     (if \<exists>n \<in> set nodes. t_nodes (ops_tree s) n = None then None
      else
        (let qids = map (\<lambda>n. NodeQID (the (t_nodes (ops_tree s) n))) nodes
         in if length qids = length (tc_Wname (r_Tc r))
            then
              (let targetNode = last nodes
               in Some (s\<lparr>heap := (heap s)(nextAddr s \<mapsto>
                                      \<lparr>fs_Node = targetNode, fs_dirb = [], fs_lock = None\<rparr>),
                          nextAddr := nextAddr s + 1,
                          fids := (fids s)(r_Newfid r := AuxFsNode (nextAddr s)),
                          ops_tree := node_Ref (ops_tree s) targetNode\<rparr>,
                        [Rwalk qids]))
            else Some (s, [Rwalk qids])))"

definition ops_Walk :: "env \<Rightarrow> ops \<Rightarrow> Req \<Rightarrow> (ops \<times> response list) option" where
  "ops_Walk e s r =
     (case fids s (r_Fid r) of
        AuxCtl \<Rightarrow>
          if length (tc_Wname (r_Tc r)) = 0
          then Some (s\<lparr>fids := (fids s)(r_Newfid r := AuxCtl)\<rparr>, [Rwalk []])
          else Some (s, [Rerror Eperm])
      | AuxNil \<Rightarrow> None
      | AuxFsNode a \<Rightarrow>
          (case heap s a of
             None \<Rightarrow> None
           | Some node \<Rightarrow>
          (case t_nodes (ops_tree s) (fs_Node node) of
             None \<Rightarrow> None
           | Some nd \<Rightarrow>
               if Unlinked nd then Some (s, [Rerror Eunlinked])
               else if length (tc_Wname (r_Tc r)) = 0
               then Some (s\<lparr>ops_tree := node_Ref (ops_tree s) (fs_Node node),
                            fids := (fids s)(r_Newfid r := AuxFsNode a)\<rparr>,
                          [Rwalk []])
               else if IsRoot (fs_Node node) nd \<and> tc_Wname (r_Tc r) = [''ctl'']
               then Some (s\<lparr>fids := (fids s)(r_Newfid r := AuxCtl)\<rparr>,
                          [Rwalk [d_Qid (c_D (ops_c s))]])
               else
                 (let (nodes, err) = tree_Walk e (ops_tree s) (fs_Node node) (tc_Wname (r_Tc r))
                  in if err = Some ErrNotExist \<and> length nodes = 0
                     then Some (s, [Rerror Enoent])
                     else if err \<noteq> None \<and> err \<noteq> Some ErrNotExist
                     then Some (s, [Rerror Eperm])
                     else walk_respond s r nodes))))"

text \<open>\<^verbatim>\<open>fsNode.prepareForReads\<close>: the directory buffer gets the entries of the children.\<close>

definition prepareForReads :: "env \<Rightarrow> ops \<Rightarrow> nat \<Rightarrow> ops" where
  "prepareForReads e s a =
     (case heap s a of
        None \<Rightarrow> s
      | Some node \<Rightarrow>
          (case t_nodes (ops_tree s) (fs_Node node) of
             None \<Rightarrow> s
           | Some nd \<Rightarrow>
               s\<lparr>heap := (heap s)(a \<mapsto> node\<lparr>fs_dirb :=
                    concat (map (\<lambda>child. e_PackDir e (NodeDir (e_NodeUID e) (e_NodeGID e) child))
                              (Children (ops_tree s) nd))\<rparr>)\<rparr>))"

text \<open>
  \<^verbatim>\<open>Open\<close>. The handler responds with \<^verbatim>\<open>Eperm\<close> when the mode has ORCLOSE and then goes
  on into the switch: \<open>sent\<close> is what it has responded by then.
\<close>

definition ops_Open :: "env \<Rightarrow> ops \<Rightarrow> Req \<Rightarrow> (ops \<times> response list) option" where
  "ops_Open e s r =
     (let sent = (if tc_Mode (r_Tc r) AND ORCLOSE \<noteq> 0 then [Rerror Eperm] else [])
      in case fids s (r_Fid r) of
           AuxCtl \<Rightarrow> Some (s, sent @ [Ropen (d_Qid (c_D (ops_c s))) 0])
         | AuxNil \<Rightarrow> None
         | AuxFsNode a \<Rightarrow>
             (case heap s a of
                None \<Rightarrow> None
              | Some node \<Rightarrow>
             (case t_nodes (ops_tree s) (fs_Node node) of
                None \<Rightarrow> None
              | Some nd \<Rightarrow>
                  if Unlinked nd then Some (s, sent @ [Rerror Eunlinked])
                  else
                    (let qid = NodeQID nd;
                         excl = (moreMode (moreModes s) (q_Path qid) AND DMEXCL \<noteq> 0);
                         s1 = (if excl
                               then s\<lparr>locks := snd (lockNode (locks s) (r_Fid r) nd),
                                      heap := (heap s)(a \<mapsto>
                                                node\<lparr>fs_lock := fst (lockNode (locks s) (r_Fid r) nd)\<rparr>)\<rparr>
                               else s);
                         qid1 = (if excl then qid\<lparr>q_Type := q_Type qid OR QTEXCL\<rparr> else qid)
                     in if excl \<and> fst (lockNode (locks s) (r_Fid r) nd) = None
                        then Some (s1, sent @ [RerrorString ''file already locked''])
                        else if IsDir nd
                        then (case tree_Grow e (ops_tree s1) (fs_Node node) of
                                Some err \<Rightarrow> Some (s1, sent @ [Rerror err])
                              | None \<Rightarrow> Some (prepareForReads e s1 a, sent @ [Ropen qid1 0]))
                        else if tc_Mode (r_Tc r) AND OTRUNC \<noteq> 0
                        then (case node_Truncate e (ops_tree s1) (fs_Node node) 0 of
                                Inl err \<Rightarrow> Some (s1, sent @ [Rerror err])
                              | Inr t \<Rightarrow> Some (s1\<lparr>ops_tree := t\<rparr>, sent @ [Ropen qid1 0]))
                        else Some (s1, sent @ [Ropen qid1 0])))))"

definition ops_Create :: "env \<Rightarrow> ops \<Rightarrow> Req \<Rightarrow> (ops \<times> response list) option" where
  "ops_Create e s r =
     (case fids s (r_Fid r) of
        AuxCtl \<Rightarrow> Some (s, [Rerror Eperm])
      | AuxNil \<Rightarrow> None
      | AuxFsNode a \<Rightarrow>
          (case heap s a of
             None \<Rightarrow> None
           | Some parent \<Rightarrow>
          (case t_nodes (ops_tree s) (fs_Node parent) of
             None \<Rightarrow> None
           | Some pnd \<Rightarrow>
               if Unlinked pnd then Some (s, [Rerror Eunlinked])
               else
          (case checkMode (e_mapOrder e) None (tc_Perm (r_Tc r)) of
             Some err \<Rightarrow> Some (s, [Rerror err])
           | None \<Rightarrow>
          (case tree_Add e (ops_tree s) (fs_Node parent) (tc_Name (r_Tc r)) (tc_Perm (r_Tc r)) of
             Inl err \<Rightarrow> Some (s, [Rerror err])
           | Inr (n, t1) \<Rightarrow>
               (let t2 = node_Unref (node_Ref t1 n) (fs_Node parent)
                in case t_nodes t2 n of
                     None \<Rightarrow> None
                   | Some nd \<Rightarrow>
                       (let child = nextAddr s;
                            s1 = s\<lparr>ops_tree := t2,
                                   heap := (heap s)(child \<mapsto> \<lparr>fs_Node = n, fs_dirb = [], fs_lock = None\<rparr>),
                                   nextAddr := child + 1,
                                   fids := (fids s)(r_Fid r := AuxFsNode child)\<rparr>;
                            qid = NodeQID nd
                        in if tc_Perm (r_Tc r) AND DMEXCL \<noteq> 0
                           then
                             (let l = fst (lockNode (locks s1) (r_Fid r) nd);
                                  s2 = s1\<lparr>moreModes := setMoreMode (moreModes s1) (q_Path qid) DMEXCL,
                                          locks := snd (lockNode (locks s1) (r_Fid r) nd),
                                          heap := (heap s1)(child \<mapsto>
                                                    \<lparr>fs_Node = n, fs_dirb = [], fs_lock = l\<rparr>)\<rparr>
                              in if l = None
                                 then Some (s2, [RerrorString ''out of locks''])
                                 else Some (s2, [Rcreate (qid\<lparr>q_Type := q_Type qid OR QTEXCL\<rparr>) 0]))
                           else Some (s1, [Rcreate qid 0]))))))))"

definition ops_Read :: "env \<Rightarrow> ops \<Rightarrow> Req \<Rightarrow> (ops \<times> response list) option" where
  "ops_Read e s r =
     (case e_fault e F_InitRread of
        Some err \<Rightarrow> Some (s, [Rerror err])
      | None \<Rightarrow>
     (case fids s (r_Fid r) of
        AuxCtl \<Rightarrow>
          (let c1 = (ops_c s)\<lparr>c_D := (c_D (ops_c s))\<lparr>d_Atime := e_now e\<rparr>\<rparr>
           in Some (s\<lparr>ops_c := c1\<rparr>,
                    [Rread (ctl_read c1 (tc_Count (r_Tc r)) (tc_Offset (r_Tc r)))]))
      | AuxNil \<Rightarrow> None
      | AuxFsNode a \<Rightarrow>
          (case heap s a of
             None \<Rightarrow> None
           | Some node \<Rightarrow>
          (case t_nodes (ops_tree s) (fs_Node node) of
             None \<Rightarrow> None
           | Some nd \<Rightarrow>
               if Unlinked nd then Some (s, [Rerror Eunlinked])
               else
                 (case (if IsDir nd
                        then dirb_Read e (fs_dirb node) (tc_Count (r_Tc r)) (tc_Offset (r_Tc r))
                        else node_ReadAt e nd (tc_Count (r_Tc r)) (tc_Offset (r_Tc r))) of
                    Inl err \<Rightarrow> Some (s, [Rerror Eperm])
                  | Inr bs \<Rightarrow> Some (s, [Rread bs]))))))"

definition ops_Write :: "env \<Rightarrow> ops \<Rightarrow> Req \<Rightarrow> (ops \<times> response list) option" where
  "ops_Write e s r =
     (case fids s (r_Fid r) of
        AuxCtl \<Rightarrow>
          (let s1 = s\<lparr>ops_c := (ops_c s)\<lparr>c_D := (c_D (ops_c s))\<lparr>d_Mtime := e_now e\<rparr>\<rparr>\<rparr>
           in case runCommand e s1 (tc_Data (r_Tc r)) of
                None \<Rightarrow> None
              | Some (Some err, s2) \<Rightarrow> Some (s2, [Rerror err])
              | Some (None, s2) \<Rightarrow> Some (s2, [Rwrite (of_nat (length (tc_Data (r_Tc r))))]))
      | AuxNil \<Rightarrow> None
      | AuxFsNode a \<Rightarrow>
          (case heap s a of
             None \<Rightarrow> None
           | Some node \<Rightarrow>
          (case t_nodes (ops_tree s) (fs_Node node) of
             None \<Rightarrow> None
           | Some nd \<Rightarrow>
               if Unlinked nd then Some (s, [Rerror Eunlinked])
               else
                 (case node_WriteAt e (ops_tree s) (fs_Node node) (tc_Data (r_Tc r))
                         (tc_Offset (r_Tc r)) of
                    Inl err \<Rightarrow> Some (s, [Rerror err])
                  | Inr t \<Rightarrow>
                      Some (s\<lparr>ops_tree := t\<rparr>,
                            [Rwrite (of_nat (length (tc_Data (r_Tc r))))])))))"

definition ops_Clunk :: "ops \<Rightarrow> Req \<Rightarrow> (ops \<times> response list) option" where
  "ops_Clunk s r =
     (case fids s (r_Fid r) of
        AuxCtl \<Rightarrow> Some (s, [Rclunk])
      | AuxNil \<Rightarrow> None
      | AuxFsNode a \<Rightarrow>
          (case heap s a of
             None \<Rightarrow> None
           | Some node \<Rightarrow>
               (case fs_lock node of
                  None \<Rightarrow> Some (s, [Rclunk])
                | Some l \<Rightarrow>
                    Some (s\<lparr>locks := unlockNode (locks s) l,
                             heap := (heap s)(a \<mapsto> node\<lparr>fs_lock := None\<rparr>)\<rparr>,
                          [Rclunk]))))"

definition ops_Remove :: "env \<Rightarrow> ops \<Rightarrow> Req \<Rightarrow> (ops \<times> response list) option" where
  "ops_Remove e s r =
     (case fids s (r_Fid r) of
        AuxCtl \<Rightarrow> Some (s, [Rerror Eperm])
      | AuxNil \<Rightarrow> None
      | AuxFsNode a \<Rightarrow>
          (case heap s a of
             None \<Rightarrow> None
           | Some node \<Rightarrow>
          (case t_nodes (ops_tree s) (fs_Node node) of
             None \<Rightarrow> None
           | Some nd \<Rightarrow>
               if Unlinked nd then Some (s, [Rerror Eunlinked])
               else
                 (case tree_Remove e (ops_tree s) (fs_Node node) of
                    (Some err, t) \<Rightarrow>
                      if err = ErrNotEmpty
                      then Some (s\<lparr>ops_tree := t\<rparr>, [Rerror Enotempty])
                      else Some (s\<lparr>ops_tree := t\<rparr>, [Rerror Eperm])
                  | (None, t) \<Rightarrow> Some (s\<lparr>ops_tree := t\<rparr>, [Rremove])))))"

definition ops_Stat :: "env \<Rightarrow> ops \<Rightarrow> Req \<Rightarrow> (ops \<times> response list) option" where
  "ops_Stat e s r =
     (case fids s (r_Fid r) of
        AuxCtl \<Rightarrow> Some (s, [Rstat (c_D (ops_c s))])
      | AuxNil \<Rightarrow> None
      | AuxFsNode a \<Rightarrow>
          (case heap s a of
             None \<Rightarrow> None
           | Some node \<Rightarrow>
          (case t_nodes (ops_tree s) (fs_Node node) of
             None \<Rightarrow> None
           | Some nd \<Rightarrow>
               if Unlinked nd then Some (s, [Rerror Eunlinked])
               else
                 (let dir = NodeDir (e_NodeUID e) (e_NodeGID e) nd;
                      qid = d_Qid dir
                  in if moreMode (moreModes s) (q_Path qid) AND DMEXCL \<noteq> 0
                     then Some (s, [Rstat (dir\<lparr>d_Mode := d_Mode dir OR DMEXCL,
                                               d_Qid := qid\<lparr>q_Type := q_Type qid OR QTEXCL\<rparr>\<rparr>)])
                     else Some (s, [Rstat (dir\<lparr>d_Mode := d_Mode dir AND NOT DMEXCL,
                                               d_Qid := qid\<lparr>q_Type := q_Type qid AND NOT QTEXCL\<rparr>\<rparr>)])))))"

text \<open>
  \<^verbatim>\<open>Wstat\<close>, in two parts. \<open>wstat_attributes\<close> is the handler from the blanking of atime
  and muid on; \<open>t\<close> is the tree after the length change, if one was asked for.
\<close>

definition wstat_attributes :: "env \<Rightarrow> ops \<Rightarrow> nat \<Rightarrow> Dir \<Rightarrow> (ops \<times> response list) option" where
  "wstat_attributes e s n dir0 =
     (let dir = dir0\<lparr>d_Atime := - 1, d_Muid := []\<rparr>
      in if ChangeIllegalFields dir then Some (s, [Rerror Eperm])
         else
           (let t1 = (if ChangeName dir then node_Rename (ops_tree s) n (d_Name dir) else ops_tree s);
                t2 = (if ChangeMtime dir then node_Touch t1 n (d_Mtime dir) else t1)
            in if ChangeMode dir
               then
                 (case t_nodes t2 n of
                    None \<Rightarrow> None
                  | Some nd \<Rightarrow>
                      (case checkMode (e_mapOrder e) (Some (IsDir nd)) (d_Mode dir) of
                         Some err \<Rightarrow> Some (s\<lparr>ops_tree := t2\<rparr>, [Rerror err])
                       | None \<Rightarrow>
                           (let s3 = s\<lparr>ops_tree := node_SetPerm t2 n (d_Mode dir AND perm0777),
                                       moreModes := setMoreMode (moreModes s) (q_Path (NodeQID nd))
                                                      (if d_Mode dir AND DMEXCL \<noteq> 0 then DMEXCL else 0)\<rparr>
                            in if ChangeGID dir then Some (s3, [Rerror Eperm])
                               else Some (s3, [Rwstat]))))
               else if ChangeGID dir then Some (s\<lparr>ops_tree := t2\<rparr>, [Rerror Eperm])
               else Some (s\<lparr>ops_tree := t2\<rparr>, [Rwstat])))"

definition ops_Wstat :: "env \<Rightarrow> ops \<Rightarrow> Req \<Rightarrow> (ops \<times> response list) option" where
  "ops_Wstat e s r =
     (case fids s (r_Fid r) of
        AuxCtl \<Rightarrow> Some (s, [Rerror Eperm])
      | AuxNil \<Rightarrow> None
      | AuxFsNode a \<Rightarrow>
          (case heap s a of
             None \<Rightarrow> None
           | Some node \<Rightarrow>
          (case t_nodes (ops_tree s) (fs_Node node) of
             None \<Rightarrow> None
           | Some nd \<Rightarrow>
               if Unlinked nd then Some (s, [Rerror Eunlinked])
               else if ChangeLength (tc_Dir (r_Tc r))
               then
                 (if IsDir nd then Some (s, [Rerror Eperm])
                  else
                    (case node_Truncate e (ops_tree s) (fs_Node node) (d_Length (tc_Dir (r_Tc r))) of
                       Inl err \<Rightarrow> Some (s, [Rerror Eperm])
                     | Inr t \<Rightarrow>
                         wstat_attributes e (s\<lparr>ops_tree := t\<rparr>) (fs_Node node) (tc_Dir (r_Tc r))))
               else wstat_attributes e s (fs_Node node) (tc_Dir (r_Tc r)))))"

section \<open>Sequences of requests\<close>

text \<open>
  go9p's server hands each T-message to the handler of its type and calls \<^verbatim>\<open>FidDestroy\<close>
  when a fid goes away. \<open>run\<close> serves a sequence of them, one after the other, and
  collects the responses of each.
\<close>

datatype msg =
    Tattach Req
  | Twalk Req
  | Topen Req
  | Tcreate Req
  | Tread Req
  | Twrite Req
  | Tclunk Req
  | Tremove Req
  | Tstat Req
  | Twstat Req
  | Destroy nat

fun dispatch :: "env \<Rightarrow> ops \<Rightarrow> msg \<Rightarrow> (ops \<times> response list) option" where
  "dispatch e s (Tattach r) = ops_Attach s r"
| "dispatch e s (Twalk r) = ops_Walk e s r"
| "dispatch e s (Topen r) = ops_Open e s r"
| "dispatch e s (Tcreate r) = ops_Create e s r"
| "dispatch e s (Tread r) = ops_Read e s r"
| "dispatch e s (Twrite r) = ops_Write e s r"
| "dispatch e s (Tclunk r) = ops_Clunk s r"
| "dispatch e s (Tremove r) = ops_Remove e s r"
| "dispatch e s (Tstat r) = ops_Stat e s r"
| "dispatch e s (Twstat r) = ops_Wstat e s r"
| "dispatch e s (Destroy fid) = map_option (\<lambda>s1. (s1, [])) (ops_FidDestroy s fid)"

fun run :: "env \<Rightarrow> ops \<Rightarrow> msg list \<Rightarrow> (ops \<times> response list list) option" where
  "run e s [] = Some (s, [])"
| "run e s (m # ms) =
     (case dispatch e s m of
        None \<Rightarrow> None
      | Some (s1, rs) \<Rightarrow>
          (case run e s1 ms of
             None \<Rightarrow> None
           | Some (s2, rss) \<Rightarrow> Some (s2, rs # rss)))"

section \<open>A small server, for the examples\<close>

text \<open>
  A tree with the root directory (node 0), the file \<^verbatim>\<open>/a\<close> holding \<^verbatim>\<open>hello\<close> (node 1), the
  directory \<^verbatim>\<open>/d\<close> (node 2) with the file \<^verbatim>\<open>/d/b\<close> (node 3), a file that was removed while
  a fid still points to it (node 4), and the file \<^verbatim>\<open>/lock\<close> (node 5), whose qid path has
  DMEXCL in the more-mode table. Fid 0 is at the root, fid 1 at \<^verbatim>\<open>/a\<close>, fid 2 is the
  control file, fid 3 is at the removed file, fids 4 and 5 are at \<^verbatim>\<open>/lock\<close> through
  an \<^verbatim>\<open>fsNode\<close> each, and fid 6 is at \<^verbatim>\<open>/d\<close>.
\<close>

definition ex_node :: "u64 \<Rightarrow> u32 \<Rightarrow> string \<Rightarrow> nat \<Rightarrow> (string \<times> nat) list \<Rightarrow> string \<Rightarrow> bool \<Rightarrow> Node" where
  "ex_node ident mode name parent children bs gone =
     \<lparr>n_info = \<lparr>ni_ID = ident, ni_Version = 1, ni_Mode = mode, ni_Name = name,
                ni_Size = of_nat (length bs), ni_Modified = 1000\<rparr>,
      n_refs = 1, n_unlinked = gone, n_parent = parent, n_children = children,
      n_data = bs, n_pointer = ''p'' @ name\<rparr>"

definition ex_tree :: Tree where
  "ex_tree =
     \<lparr>t_nodes = (\<lambda>n. None)
        (0 \<mapsto> ex_node 1 (DMDIR OR 0x1ED) ''root'' 0 [(''a'', 1), (''d'', 2), (''lock'', 5)] [] False,
         1 \<mapsto> ex_node 2 0x1A4 ''a'' 0 [] ''hello'' False,
         2 \<mapsto> ex_node 3 (DMDIR OR 0x1ED) ''d'' 0 [(''b'', 3)] [] False,
         3 \<mapsto> ex_node 4 0x1A4 ''b'' 2 [] ''bye'' False,
         4 \<mapsto> ex_node 5 0x1A4 ''gone'' 0 [] ''old'' True,
         5 \<mapsto> ex_node 6 0x1A4 ''lock'' 0 [] [] False),
      t_root = 0, t_next = 6, t_revision = None\<rparr>"

definition ex_ops :: ops where
  "ex_ops =
     \<lparr>ops_tree = ex_tree,
      ops_treeStore = \<lparr>st_localBase = ''r1'', st_remoteBase = ''r1'', st_revisions = []\<rparr>,
      ops_c = \<lparr>c_D = \<lparr>d_Type = 0, d_Dev = 0,
                       d_Qid = \<lparr>q_Type = 0, q_Version = 0, q_Path = 0xABCDEF\<rparr>,
                       d_Mode = 0x1A4, d_Atime = 1000, d_Mtime = 1000, d_Length = 0,
                       d_Name = ''ctl'', d_Uid = ''glenda'', d_Gid = ''glenda'', d_Muid = []\<rparr>,
               c_contents = []\<rparr>,
      fids = (\<lambda>fid. AuxNil)
        (0 := AuxFsNode 10, 1 := AuxFsNode 11, 2 := AuxCtl, 3 := AuxFsNode 12,
         4 := AuxFsNode 13, 5 := AuxFsNode 14, 6 := AuxFsNode 15),
      heap = (\<lambda>a. None)
        (10 \<mapsto> \<lparr>fs_Node = 0, fs_dirb = [], fs_lock = None\<rparr>,
         11 \<mapsto> \<lparr>fs_Node = 1, fs_dirb = [], fs_lock = None\<rparr>,
         12 \<mapsto> \<lparr>fs_Node = 4, fs_dirb = [], fs_lock = None\<rparr>,
         13 \<mapsto> \<lparr>fs_Node = 5, fs_dirb = [], fs_lock = None\<rparr>,
         14 \<mapsto> \<lparr>fs_Node = 5, fs_dirb = [], fs_lock = None\<rparr>,
         15 \<mapsto> \<lparr>fs_Node = 2, fs_dirb = [], fs_lock = None\<rparr>),
      nextAddr = 16,
      locks = (\<lambda>path. None),
      moreModes = (\<lambda>path. 0)(6 := DMEXCL),
      calls = []\<rparr>"

text \<open>
  An environment in which no call fails, the map is walked in the order of the table,
  and pull finds no command to run.
\<close>

definition ex_env :: env where
  "ex_env =
     \<lparr>e_now = 2000, e_host = ''host'', e_NodeUID = ''glenda'', e_NodeGID = ''glenda'',
      e_mapOrder = unsupportedModes,
      e_fault = (\<lambda>f. None),
      e_PullWorklog = Inr [],
      e_showPointer = (\<lambda>key. key),
      e_plusV = (\<lambda>err. ''error''),
      e_q = (\<lambda>x. x),
      e_Key = (\<lambda>revision. ''k'' @ rev_root revision @ rev_parent revision),
      e_ShortString = (\<lambda>revision. rev_root revision),
      e_PackDir = (\<lambda>dir. d_Name dir @ ''/''),
      e_other = (\<lambda>name args s. Some (None, [], s))\<rparr>"

text \<open>A \<^verbatim>\<open>p.Dir\<close> that asks for no change, and a T-message with empty fields.\<close>

definition dontTouch :: Dir where
  "dontTouch =
     \<lparr>d_Type = - 1, d_Dev = - 1,
      d_Qid = \<lparr>q_Type = - 1, q_Version = - 1, q_Path = - 1\<rparr>,
      d_Mode = - 1, d_Atime = - 1, d_Mtime = - 1, d_Length = - 1,
      d_Name = [], d_Uid = [], d_Gid = [], d_Muid = []\<rparr>"

definition ex_tc :: Fcall where
  "ex_tc =
     \<lparr>tc_Wname = [], tc_Mode = 0, tc_Perm = 0, tc_Name = [], tc_Count = 0, tc_Offset = 0,
      tc_Data = [], tc_Dir = dontTouch\<rparr>"

definition ex_req :: "nat \<Rightarrow> Fcall \<Rightarrow> Req" where
  "ex_req fid tc = \<lparr>r_Fid = fid, r_Newfid = 7, r_Tc = tc\<rparr>"

section \<open>Vocabulary for the theorems\<close>

text \<open>
  \<open>fid_at s fid a node nd\<close>: the fid holds the \<^verbatim>\<open>fsNode\<close> at address \<open>a\<close>, which wraps the tree
  node \<open>nd\<close>. \<open>onlyUnsupported mode b\<close>: of the unsupported bits, the mode has \<open>b\<close> and no
  other. \<open>sameKind nodeIsDir mode\<close>: the mode asks for no change between directory and
  file (there is no node on Create).
\<close>

definition fid_at :: "ops \<Rightarrow> nat \<Rightarrow> nat \<Rightarrow> fsNode \<Rightarrow> Node \<Rightarrow> bool" where
  "fid_at s fid a node nd \<longleftrightarrow>
     fids s fid = AuxFsNode a \<and> heap s a = Some node \<and>
     t_nodes (ops_tree s) (fs_Node node) = Some nd"

definition onlyUnsupported :: "u32 \<Rightarrow> u32 \<Rightarrow> bool" where
  "onlyUnsupported mode b \<longleftrightarrow>
     mode AND b \<noteq> 0 \<and> (\<forall>(b', msg') \<in> set unsupportedModes. b' \<noteq> b \<longrightarrow> mode AND b' = 0)"

definition sameKind :: "bool option \<Rightarrow> u32 \<Rightarrow> bool" where
  "sameKind nodeIsDir mode \<longleftrightarrow> nodeIsDir = None \<or> nodeIsDir = Some (mode AND DMDIR \<noteq> 0)"

text \<open>
  The error of a push whose precondition fails: \<^verbatim>\<open>errors.Errorf\<close> with the format
  \<^verbatim>\<open>"local base %v does not match remote base %v, pull first"\<close>.
\<close>

definition pullFirst :: "env \<Rightarrow> pointer \<Rightarrow> pointer \<Rightarrow> error" where
  "pullFirst e localbase remotebase =
     Errorf (''local base '' @ e_showPointer e localbase @ '' does not match remote base '' @
             e_showPointer e remotebase @ '', pull first'')"

text \<open>
  \<open>exclusive s nd\<close>: the more-mode table has DMEXCL for the qid path of the node.
\<close>

definition exclusive :: "ops \<Rightarrow> Node \<Rightarrow> bool" where
  "exclusive s nd \<longleftrightarrow> moreMode (moreModes s) (ni_ID (n_info nd)) AND DMEXCL \<noteq> 0"

section \<open>Mode policing\<close>

lemma rangeUnsupported_Some:
  "rangeUnsupported order mode = Some err \<Longrightarrow>
     \<exists>b msg. (b, msg) \<in> set order \<and> mode AND b \<noteq> 0 \<and> err = Errorf msg"
  by (induction order mode rule: rangeUnsupported.induct) (auto split: if_splits)

lemma rangeUnsupported_None:
  "rangeUnsupported order mode = None \<longleftrightarrow> (\<forall>(b, msg) \<in> set order. mode AND b = 0)"
  by (induction order mode rule: rangeUnsupported.induct) auto

lemma and_sub:
  fixes m :: u32
  assumes "m AND u = 0" and "u AND b = b"
  shows "m AND b = 0"
proof -
  have "m AND b = m AND (u AND b)" using assms(2) by simp
  also have "\<dots> = (m AND u) AND b" by (simp add: and.assoc)
  finally show ?thesis using assms(1) by simp
qed

lemma and_or_zero:
  fixes m :: u32
  shows "m AND a = 0 \<Longrightarrow> m AND b = 0 \<Longrightarrow> m AND (a OR b) = 0"
  by (simp add: bit.conj_disj_distrib)

lemma and_not_absorb:
  fixes m :: u32
  assumes "m AND u = 0"
  shows "m AND NOT u = m"
proof -
  have "m = m AND (u OR NOT u)" by simp
  also have "\<dots> = (m AND u) OR (m AND NOT u)" by (simp only: bit.conj_disj_distrib)
  finally show ?thesis using assms by simp
qed

text \<open>The unsupported bits together are \<open>0x5FBC0000\<close>.\<close>

lemma unsupported_mask:
  "(\<forall>(b, msg) \<in> set unsupportedModes. (mode :: u32) AND b = 0) \<longleftrightarrow> mode AND 0x5FBC0000 = 0"
proof
  assume a: "\<forall>(b, msg) \<in> set unsupportedModes. mode AND b = 0"
  have U: "DMAPPEND OR (DMMOUNT OR (DMAUTH OR (DMTMP OR (DMSYMLINK OR (DMLINK OR (DMDEVICE OR
      (DMNAMEDPIPE OR (DMSOCKET OR (DMSETUID OR DMSETGID))))))))) = (0x5FBC0000 :: u32)"
    by (simp add: mode_bit_defs)
  have "mode AND (DMAPPEND OR (DMMOUNT OR (DMAUTH OR (DMTMP OR (DMSYMLINK OR (DMLINK OR (DMDEVICE OR
      (DMNAMEDPIPE OR (DMSOCKET OR (DMSETUID OR DMSETGID)))))))))) = 0"
    using a by (intro and_or_zero) (simp_all add: unsupportedModes_def)
  then show "mode AND 0x5FBC0000 = 0" by (simp only: U)
next
  assume z: "mode AND 0x5FBC0000 = 0"
  show "\<forall>(b, msg) \<in> set unsupportedModes. mode AND b = 0"
    by (auto simp: unsupportedModes_def mode_bit_defs intro!: and_sub[OF z])
qed

lemma not_known:
  fixes m :: u32
  assumes "m AND 0x5FBC0000 = 0"
  shows "m AND NOT knownModes = m AND NOT (perm0777 OR DMDIR OR DMEXCL)"
proof -
  have "NOT knownModes = NOT 0x5FBC0000 AND NOT (perm0777 OR DMDIR OR DMEXCL)"
    by (simp add: knownModes_def unsupportedModes_def mode_bit_defs)
  then have "m AND NOT knownModes = (m AND NOT 0x5FBC0000) AND NOT (perm0777 OR DMDIR OR DMEXCL)"
    by (simp only: and.assoc)
  then show ?thesis by (simp only: and_not_absorb[OF assms])
qed

lemma unsupported_in_unknown:
  fixes m :: u32
  assumes "m AND NOT (perm0777 OR DMDIR OR DMEXCL) = 0"
  shows "m AND 0x5FBC0000 = 0"
proof -
  have "NOT (perm0777 OR DMDIR OR DMEXCL) AND 0x5FBC0000 = (0x5FBC0000 :: u32)"
    by (simp add: mode_bit_defs)
  from and_sub[OF assms this] show ?thesis .
qed

lemma table_functional:
  "(b, msg) \<in> set unsupportedModes \<Longrightarrow> (b, msg') \<in> set unsupportedModes \<Longrightarrow> msg = msg'"
proof -
  have "distinct (map fst unsupportedModes)"
    by (simp add: unsupportedModes_def mode_bit_defs)
  then show "(b, msg) \<in> set unsupportedModes \<Longrightarrow> (b, msg') \<in> set unsupportedModes \<Longrightarrow> msg = msg'"
    by (rule eq_key_imp_eq_value)
qed

lemma checkMode_no_transition:
  "nodeIsDir = None \<or> nodeIsDir = Some (mode AND DMDIR \<noteq> 0) \<Longrightarrow>
   checkMode order nodeIsDir mode =
     (case rangeUnsupported order mode of
        Some err \<Rightarrow> Some err
      | None \<Rightarrow> if mode AND NOT knownModes \<noteq> 0
                then Some (Errorf (''unrecognized mode bits: '' @ fmt_b (mode AND NOT knownModes)))
                else None)"
  by (auto simp: checkMode_def Let_def split: option.splits)

lemma checkMode_rejects_unsupported:
  assumes "set order = set unsupportedModes" "(b, msg) \<in> set unsupportedModes" "mode AND b \<noteq> 0"
  shows "checkMode order nodeIsDir mode \<noteq> None"
proof -
  have "rangeUnsupported order mode \<noteq> None"
    using assms by (auto simp: rangeUnsupported_None)
  then show ?thesis by (auto simp: checkMode_def)
qed

lemma checkMode_message_of_a_set_bit:
  assumes "set order = set unsupportedModes" "(b, msg) \<in> set unsupportedModes" "mode AND b \<noteq> 0"
    and "nodeIsDir = None \<or> nodeIsDir = Some (mode AND DMDIR \<noteq> 0)"
  shows "\<exists>(b', msg') \<in> set unsupportedModes.
           mode AND b' \<noteq> 0 \<and> checkMode order nodeIsDir mode = Some (Errorf msg')"
proof -
  have "rangeUnsupported order mode \<noteq> None"
    using assms by (auto simp: rangeUnsupported_None)
  then obtain err where err: "rangeUnsupported order mode = Some err" by auto
  from rangeUnsupported_Some[OF err] obtain b' msg'
    where "(b', msg') \<in> set order" "mode AND b' \<noteq> 0" "err = Errorf msg'" by auto
  then show ?thesis
    using assms(1) err by (auto simp: checkMode_no_transition[OF assms(4)])
qed

lemma checkMode_message_of_the_bit:
  assumes "set order = set unsupportedModes" "(b, msg) \<in> set unsupportedModes" "mode AND b \<noteq> 0"
    and "nodeIsDir = None \<or> nodeIsDir = Some (mode AND DMDIR \<noteq> 0)"
    and only: "\<forall>(b', msg') \<in> set unsupportedModes. b' \<noteq> b \<longrightarrow> mode AND b' = 0"
  shows "checkMode order nodeIsDir mode = Some (Errorf msg)"
proof -
  from checkMode_message_of_a_set_bit[OF assms(1-4)] obtain b' msg'
    where m: "(b', msg') \<in> set unsupportedModes" "mode AND b' \<noteq> 0"
      "checkMode order nodeIsDir mode = Some (Errorf msg')" by auto
  from only m(1,2) have "b' = b" by auto
  with m(1) assms(2) have "msg' = msg" by (auto dest: table_functional)
  with m(3) show ?thesis by simp
qed

lemma checkMode_rejects_unknown:
  assumes "set order = set unsupportedModes"
    and "mode AND NOT (perm0777 OR DMDIR OR DMEXCL) \<noteq> 0"
  shows "checkMode order nodeIsDir mode \<noteq> None"
proof (cases "rangeUnsupported order mode")
  case (Some err)
  then show ?thesis by (auto simp: checkMode_def)
next
  case None
  then have "mode AND 0x5FBC0000 = 0"
    using assms(1) by (simp add: rangeUnsupported_None unsupported_mask)
  from not_known[OF this] assms(2) have "mode AND NOT knownModes \<noteq> 0" by simp
  then show ?thesis by (auto simp: checkMode_def Let_def None)
qed

lemma checkMode_passes:
  assumes "set order = set unsupportedModes"
    and "mode AND NOT (perm0777 OR DMDIR OR DMEXCL) = 0"
    and "nodeIsDir = None \<or> nodeIsDir = Some (mode AND DMDIR \<noteq> 0)"
  shows "checkMode order nodeIsDir mode = None"
proof -
  have z: "mode AND 0x5FBC0000 = 0" by (rule unsupported_in_unknown[OF assms(2)])
  then have "rangeUnsupported order mode = None"
    using assms(1) by (simp add: rangeUnsupported_None unsupported_mask)
  moreover from not_known[OF z] assms(2) have "mode AND NOT knownModes = 0" by simp
  ultimately show ?thesis by (simp add: checkMode_no_transition[OF assms(3)])
qed

lemma checkMode_directory_to_file:
  "mode AND DMDIR = 0 \<Longrightarrow>
     checkMode order (Some True) mode = Some (Errorf ''a directory cannot become a regular file'')"
  by (simp add: checkMode_def)

lemma checkMode_file_to_directory:
  "mode AND DMDIR \<noteq> 0 \<Longrightarrow>
     checkMode order (Some False) mode = Some (Errorf ''a regular file cannot become a directory'')"
  by (simp add: checkMode_def)

lemma Create_mode_error:
  assumes "fids s (r_Fid r) = AuxFsNode a" "heap s a = Some parent"
    "t_nodes (ops_tree s) (fs_Node parent) = Some pnd" "\<not> Unlinked pnd"
    "checkMode (e_mapOrder e) None (tc_Perm (r_Tc r)) = Some err"
  shows "ops_Create e s r = Some (s, [Rerror err])"
  using assms by (simp add: ops_Create_def)

lemma Wstat_mode_error:
  assumes "fids s (r_Fid r) = AuxFsNode a" "heap s a = Some node"
    "t_nodes (ops_tree s) (fs_Node node) = Some nd" "\<not> Unlinked nd"
    "\<not> ChangeLength (tc_Dir (r_Tc r))" "\<not> ChangeTypeDevQid (tc_Dir (r_Tc r))"
    "\<not> ChangeName (tc_Dir (r_Tc r))" "\<not> ChangeMtime (tc_Dir (r_Tc r))"
    "ChangeMode (tc_Dir (r_Tc r))"
    "checkMode (e_mapOrder e) (Some (IsDir nd)) (d_Mode (tc_Dir (r_Tc r))) = Some err"
  shows "ops_Wstat e s r = Some (s, [Rerror err])"
  using assms
  by (simp add: ops_Wstat_def wstat_attributes_def Let_def ChangeIllegalFields_def
      ChangeTypeDevQid_def ChangeName_def ChangeMtime_def ChangeMode_def)

text \<open>
  C5, as stated, fails at a mode with two unsupported bits and at a change of kind. Go
  walks the map of unsupported modes in an order of its own choosing: for a Create with
  the symlink bit and the append bit the message is "append-only files are not supported"
  when the walk takes the entries in the order of the table, and "symbolic links are not
  supported" when it takes them in the reverse order. And a mode with the append bit and
  no directory bit, checked for a directory, is rejected with the message about
  directories and files, not with that of the bit.
\<close>

theorem C5_mode_policing_counterexample:
  "checkMode unsupportedModes None (0x1A4 OR DMSYMLINK OR DMAPPEND) =
     Some (Errorf ''append-only files are not supported'') \<and>
   checkMode (rev unsupportedModes) None (0x1A4 OR DMSYMLINK OR DMAPPEND) =
     Some (Errorf ''symbolic links are not supported'') \<and>
   ops_Create ex_env ex_ops
     (ex_req 0 (ex_tc\<lparr>tc_Name := ''bad'', tc_Perm := 0x1A4 OR DMSYMLINK OR DMAPPEND\<rparr>)) =
     Some (ex_ops, [Rerror (Errorf ''append-only files are not supported'')]) \<and>
   checkMode unsupportedModes (Some True) (0x1ED OR DMAPPEND) =
     Some (Errorf ''a directory cannot become a regular file'')"
  by (simp add: checkMode_def unsupportedModes_def mode_bit_defs ops_Create_def ex_ops_def
      ex_tree_def ex_node_def ex_env_def ex_req_def ex_tc_def Unlinked_def)

text \<open>
  C5, amended. Mode checking on Create and on Wstat mode-change, for every order in which
  the map of unsupported modes can be walked. A mode with an unsupported bit (append, mount,
  auth, temp, symlink, hard link, device, named pipe, socket, setuid, setgid) is
  rejected; when the mode asks for no change between directory and file, the message is
  that of an unsupported bit the mode has, and that of the bit itself when it is the
  only one. A Create on a fid at a node that is not marked unlinked, whose mode has the
  symlink bit as its only unsupported bit, is answered with "symbolic links are not
  supported". A mode with a bit outside the nine
  permission bits, the directory bit and the exclusive-use bit is rejected. On a node, a
  mode without the directory bit is rejected for a directory, and a mode with it for a
  file. A mode of recognised bits only, with no change between directory and file,
  passes. On a fid at a node that is not marked unlinked, a Create, and a Wstat that asks
  for a change of the mode and of nothing else, answer with the error of the check and
  leave the state as it was.
\<close>

theorem C5_mode_policing:
  assumes order: "set order = set unsupportedModes"
  shows
    "(\<forall>(b, msg) \<in> set unsupportedModes. mode AND b \<noteq> 0 \<longrightarrow>
        checkMode order nodeIsDir mode \<noteq> None \<and>
        (sameKind nodeIsDir mode \<longrightarrow>
           (\<exists>(b', msg') \<in> set unsupportedModes.
              mode AND b' \<noteq> 0 \<and> checkMode order nodeIsDir mode = Some (Errorf msg')) \<and>
           (onlyUnsupported mode b \<longrightarrow> checkMode order nodeIsDir mode = Some (Errorf msg))))
     \<and> (onlyUnsupported mode DMSYMLINK \<and> e_mapOrder e = order \<and> tc_Perm (r_Tc rc) = mode \<and>
          fid_at s (r_Fid rc) a parent pnd \<and> \<not> Unlinked pnd \<longrightarrow>
          ops_Create e s rc = Some (s, [Rerror (Errorf ''symbolic links are not supported'')]))
     \<and> (mode AND NOT (perm0777 OR DMDIR OR DMEXCL) \<noteq> 0 \<longrightarrow> checkMode order nodeIsDir mode \<noteq> None)
     \<and> (mode AND DMDIR = 0 \<longrightarrow>
          checkMode order (Some True) mode =
            Some (Errorf ''a directory cannot become a regular file''))
     \<and> (mode AND DMDIR \<noteq> 0 \<longrightarrow>
          checkMode order (Some False) mode =
            Some (Errorf ''a regular file cannot become a directory''))
     \<and> (mode AND NOT (perm0777 OR DMDIR OR DMEXCL) = 0 \<and> sameKind nodeIsDir mode \<longrightarrow>
          checkMode order nodeIsDir mode = None)
     \<and> (e_mapOrder e = order \<and> tc_Perm (r_Tc rc) = mode \<and> fid_at s (r_Fid rc) a parent pnd \<and>
          \<not> Unlinked pnd \<and> checkMode order None mode = Some err \<longrightarrow>
          ops_Create e s rc = Some (s, [Rerror err]))
     \<and> (e_mapOrder e = order \<and> d_Mode (tc_Dir (r_Tc rw)) = mode \<and> fid_at s (r_Fid rw) a' node nd \<and>
          \<not> Unlinked nd \<and> \<not> ChangeLength (tc_Dir (r_Tc rw)) \<and> \<not> ChangeTypeDevQid (tc_Dir (r_Tc rw)) \<and>
          \<not> ChangeName (tc_Dir (r_Tc rw)) \<and> \<not> ChangeMtime (tc_Dir (r_Tc rw)) \<and>
          ChangeMode (tc_Dir (r_Tc rw)) \<and> checkMode order (Some (IsDir nd)) mode = Some err' \<longrightarrow>
          ops_Wstat e s rw = Some (s, [Rerror err']))"
proof -
  have c1: "\<forall>(b, msg) \<in> set unsupportedModes. mode AND b \<noteq> 0 \<longrightarrow>
        checkMode order nodeIsDir mode \<noteq> None \<and>
        (sameKind nodeIsDir mode \<longrightarrow>
           (\<exists>(b', msg') \<in> set unsupportedModes.
              mode AND b' \<noteq> 0 \<and> checkMode order nodeIsDir mode = Some (Errorf msg')) \<and>
           (onlyUnsupported mode b \<longrightarrow> checkMode order nodeIsDir mode = Some (Errorf msg)))"
  proof (intro ballI, clarify, intro conjI impI)
    fix b msg
    assume b: "(b, msg) \<in> set unsupportedModes" "mode AND b \<noteq> 0"
    show "checkMode order nodeIsDir mode \<noteq> None"
      by (rule checkMode_rejects_unsupported[OF order b])
    { assume k: "sameKind nodeIsDir mode"
      then have k': "nodeIsDir = None \<or> nodeIsDir = Some (mode AND DMDIR \<noteq> 0)"
        by (simp add: sameKind_def)
      show "\<exists>(b', msg') \<in> set unsupportedModes.
              mode AND b' \<noteq> 0 \<and> checkMode order nodeIsDir mode = Some (Errorf msg')"
        by (rule checkMode_message_of_a_set_bit[OF order b k'])
      assume "onlyUnsupported mode b"
      then have "\<forall>(b', msg') \<in> set unsupportedModes. b' \<noteq> b \<longrightarrow> mode AND b' = 0"
        by (simp add: onlyUnsupported_def)
      from checkMode_message_of_the_bit[OF order b k' this]
      show "checkMode order nodeIsDir mode = Some (Errorf msg)" . }
  qed
  have sym: "onlyUnsupported mode DMSYMLINK \<Longrightarrow>
      checkMode order None mode = Some (Errorf ''symbolic links are not supported'')"
  proof -
    assume o: "onlyUnsupported mode DMSYMLINK"
    have m: "(DMSYMLINK, ''symbolic links are not supported'') \<in> set unsupportedModes"
      by (simp add: unsupportedModes_def)
    from o have "mode AND DMSYMLINK \<noteq> 0"
      and "\<forall>(b', msg') \<in> set unsupportedModes. b' \<noteq> DMSYMLINK \<longrightarrow> mode AND b' = 0"
      by (simp_all add: onlyUnsupported_def)
    from checkMode_message_of_the_bit[OF order m this(1) _ this(2), of None]
    show ?thesis by simp
  qed
  have c2: "onlyUnsupported mode DMSYMLINK \<and> e_mapOrder e = order \<and> tc_Perm (r_Tc rc) = mode \<and>
          fid_at s (r_Fid rc) a parent pnd \<and> \<not> Unlinked pnd \<longrightarrow>
          ops_Create e s rc = Some (s, [Rerror (Errorf ''symbolic links are not supported'')])"
    using sym by (auto simp: fid_at_def intro!: Create_mode_error)
  have c3: "mode AND NOT (perm0777 OR DMDIR OR DMEXCL) \<noteq> 0 \<longrightarrow> checkMode order nodeIsDir mode \<noteq> None"
    using checkMode_rejects_unknown[OF order] by blast
  have c4: "mode AND DMDIR = 0 \<longrightarrow>
          checkMode order (Some True) mode =
            Some (Errorf ''a directory cannot become a regular file'')"
    by (simp add: checkMode_directory_to_file)
  have c5: "mode AND DMDIR \<noteq> 0 \<longrightarrow>
          checkMode order (Some False) mode =
            Some (Errorf ''a regular file cannot become a directory'')"
    by (simp add: checkMode_file_to_directory)
  have c6: "mode AND NOT (perm0777 OR DMDIR OR DMEXCL) = 0 \<and> sameKind nodeIsDir mode \<longrightarrow>
          checkMode order nodeIsDir mode = None"
    using checkMode_passes[OF order] by (auto simp: sameKind_def)
  have c7: "e_mapOrder e = order \<and> tc_Perm (r_Tc rc) = mode \<and> fid_at s (r_Fid rc) a parent pnd \<and>
          \<not> Unlinked pnd \<and> checkMode order None mode = Some err \<longrightarrow>
          ops_Create e s rc = Some (s, [Rerror err])"
    by (auto simp: fid_at_def intro!: Create_mode_error)
  have c8: "e_mapOrder e = order \<and> d_Mode (tc_Dir (r_Tc rw)) = mode \<and> fid_at s (r_Fid rw) a' node nd \<and>
          \<not> Unlinked nd \<and> \<not> ChangeLength (tc_Dir (r_Tc rw)) \<and> \<not> ChangeTypeDevQid (tc_Dir (r_Tc rw)) \<and>
          \<not> ChangeName (tc_Dir (r_Tc rw)) \<and> \<not> ChangeMtime (tc_Dir (r_Tc rw)) \<and>
          ChangeMode (tc_Dir (r_Tc rw)) \<and> checkMode order (Some (IsDir nd)) mode = Some err' \<longrightarrow>
          ops_Wstat e s rw = Some (s, [Rerror err'])"
    by (auto simp: fid_at_def intro!: Wstat_mode_error)
  from c1 c2 c3 c4 c5 c6 c7 c8 show ?thesis by (intro conjI)
qed

theorem C5_mode_policing_witness:
  "set unsupportedModes = set unsupportedModes \<and>
   ops_Create ex_env ex_ops (ex_req 0 (ex_tc\<lparr>tc_Name := ''bad'', tc_Perm := 0x1A4 OR DMSYMLINK\<rparr>)) =
     Some (ex_ops, [Rerror (Errorf ''symbolic links are not supported'')])"
proof -
  have o: "onlyUnsupported (0x1A4 OR DMSYMLINK) DMSYMLINK"
    by (simp add: onlyUnsupported_def unsupportedModes_def mode_bit_defs)
  have f: "fid_at ex_ops 0 10 \<lparr>fs_Node = 0, fs_dirb = [], fs_lock = None\<rparr>
             (ex_node 1 (DMDIR OR 0x1ED) ''root'' 0 [(''a'', 1), (''d'', 2), (''lock'', 5)] [] False)"
    by (simp add: fid_at_def ex_ops_def ex_tree_def)
  have u: "\<not> Unlinked (ex_node 1 (DMDIR OR 0x1ED) ''root'' 0 [(''a'', 1), (''d'', 2), (''lock'', 5)] [] False)"
    by (simp add: Unlinked_def ex_node_def)
  from C5_mode_policing[where order = unsupportedModes and mode = "0x1A4 OR DMSYMLINK"
      and e = ex_env and s = ex_ops
      and rc = "ex_req 0 (ex_tc\<lparr>tc_Name := ''bad'', tc_Perm := 0x1A4 OR DMSYMLINK\<rparr>)", OF refl]
    o f u
  show ?thesis by (simp add: ex_env_def ex_req_def ex_tc_def)
qed

section \<open>The control commands pull and push\<close>

lemma runCommand_push:
  "Fields cmd = ''push'' # args \<Longrightarrow>
   runCommand e s cmd =
     (case push e s of
        None \<Rightarrow> None
      | Some (err, out, s1) \<Rightarrow>
          Some (err, s1\<lparr>ops_c := (ops_c s1)\<lparr>c_contents := out,
                   c_D := (c_D (ops_c s1))\<lparr>d_Length := of_nat (length out)\<rparr>\<rparr>\<rparr>))"
  by (simp add: runCommand_def)

lemma runCommand_pull:
  "Fields cmd = ''pull'' # args \<Longrightarrow>
   runCommand e s cmd =
     (case pull e s of
        None \<Rightarrow> None
      | Some (err, out, s1) \<Rightarrow>
          Some (err, s1\<lparr>ops_c := (ops_c s1)\<lparr>c_contents := out,
                   c_D := (c_D (ops_c s1))\<lparr>d_Length := of_nat (length out)\<rparr>\<rparr>\<rparr>))"
  by (simp add: runCommand_def)

lemma push_rejected:
  assumes "LocalBasePointer e (ops_treeStore s) = Inr localbase"
    and "RemoteBasePointer e (ops_treeStore s) = Inr remotebase"
    and "localbase \<noteq> remotebase"
  shows "push e s =
     Some (Some (Errorf (''local base '' @ e_showPointer e localbase @
                         '' does not match remote base '' @ e_showPointer e remotebase @
                         '', pull first'')),
           e_plusV e (Errorf (''local base '' @ e_showPointer e localbase @
                         '' does not match remote base '' @ e_showPointer e remotebase @
                         '', pull first'')), s)"
  using assms by (simp add: push_def Let_def)

lemma push_revision_calls:
  "push_revision e s remotebase out = Some (err, out', s') \<Longrightarrow>
     \<exists>rest. calls s' = calls s @ rest"
  by (auto simp: push_revision_def called_def Let_def split: option.splits sum.splits)

lemma push_allowed:
  assumes "LocalBasePointer e (ops_treeStore s) = Inr base"
    and "RemoteBasePointer e (ops_treeStore s) = Inr base"
    and "push e s = Some (err, out, s')"
  shows "\<exists>rest. calls s' = calls s @ Call_Flush # rest"
  using assms
  by (auto simp: push_def called_def Let_def split: option.splits dest!: push_revision_calls)


lemma push_sequence:
  assumes "LocalBasePointer e (ops_treeStore s) = Inr base"
    and "RemoteBasePointer e (ops_treeStore s) = Inr base"
    and "e_fault e F_Flush = None" "e_fault e F_Seal = None" "e_fault e F_StoreRevision = None"
      "e_fault e F_SetRemoteBasePointer = None" "e_fault e F_SetLocalBasePointer = None"
    and "t_nodes (ops_tree s) (t_root (ops_tree s)) = Some localroot"
  shows "\<exists>out s'. push e s = Some (None, out, s') \<and>
           calls s' = calls s @
             [Call_Flush, Call_Seal,
              Call_StoreRevision (NewRevision e localroot base),
              Call_SetRevision (NewRevision e localroot base),
              Call_SetRemoteBasePointer (e_Key e (NewRevision e localroot base)),
              Call_SetLocalBasePointer (e_Key e (NewRevision e localroot base))] \<and>
           t_revision (ops_tree s') = Some (NewRevision e localroot base) \<and>
           st_revisions (ops_treeStore s') = NewRevision e localroot base # st_revisions (ops_treeStore s) \<and>
           st_remoteBase (ops_treeStore s') = e_Key e (NewRevision e localroot base) \<and>
           st_localBase (ops_treeStore s') = e_Key e (NewRevision e localroot base)"
  using assms
  by (simp add: push_def push_revision_def called_def Let_def tree_Flush_def tree_Seal_def
      StoreRevision_def SetRemoteBasePointer_def SetLocalBasePointer_def)

lemma pull_noop:
  assumes "LocalBasePointer e (ops_treeStore s) = Inr base"
    and "RemoteBasePointer e (ops_treeStore s) = Inr base"
  shows "pull e s = Some (None, ''local base matches remote base, pull is a no-op'' @ nl, s)"
  using assms by (simp add: pull_def)

lemma pull_fast_forward:
  assumes "LocalBasePointer e (ops_treeStore s) = Inr localbase"
    and "RemoteBasePointer e (ops_treeStore s) = Inr remotebase"
    and "localbase \<noteq> remotebase"
    and "NewTree e localbase = None" "NewTree e remotebase = None"
    and "e_PullWorklog e = Inr []" "e_fault e F_SetLocalBasePointer = None"
  shows "pull e s = Some (None, ''no commands to run, pull is a no-op'' @ nl,
           s\<lparr>calls := calls s @ [Call_SetLocalBasePointer remotebase],
             ops_treeStore := (ops_treeStore s)\<lparr>st_localBase := remotebase\<rparr>\<rparr>)"
  using assms by (simp add: pull_def Let_def called_def SetLocalBasePointer_def)

lemma pull_worklog:
  assumes "LocalBasePointer e (ops_treeStore s) = Inr localbase"
    and "RemoteBasePointer e (ops_treeStore s) = Inr remotebase"
    and "localbase \<noteq> remotebase"
    and "NewTree e localbase = None" "NewTree e remotebase = None"
    and "e_PullWorklog e = Inr commands" "commands \<noteq> []"
  shows "pull e s = Some (None, commands, s)"
  using assms by (simp add: pull_def)

lemma push_returns:
  assumes "t_nodes (ops_tree s) (t_root (ops_tree s)) \<noteq> None"
  shows "push e s \<noteq> None"
  using assms
  by (auto simp: push_def push_revision_def called_def Let_def split: option.splits sum.splits)

lemma Write_ctl:
  "fids s (r_Fid r) = AuxCtl \<Longrightarrow>
   ops_Write e s r =
     (case runCommand e (s\<lparr>ops_c := (ops_c s)\<lparr>c_D := (c_D (ops_c s))\<lparr>d_Mtime := e_now e\<rparr>\<rparr>\<rparr>)
             (tc_Data (r_Tc r)) of
        None \<Rightarrow> None
      | Some (Some err, s2) \<Rightarrow> Some (s2, [Rerror err])
      | Some (None, s2) \<Rightarrow> Some (s2, [Rwrite (of_nat (length (tc_Data (r_Tc r))))]))"
  by (simp add: ops_Write_def Let_def)

text \<open>
  C1. The push command checks its precondition first. When the store yields the local
  base and the remote base and the two differ, \<^verbatim>\<open>runCommand\<close> returns the error whose
  message names the local base pointer, then the remote base pointer, and ends in "pull
  first"; nothing was flushed, sealed or stored (no call into the engine or the store
  was made, the store and the tree are as before), and a Write of the command to the
  control file is answered with that error. When the two are equal, the command goes on:
  whatever it returns, its first call is \<^verbatim>\<open>Flush\<close>, and it does return when the tree has
  its root.
\<close>

theorem C1_push_precondition:
  assumes "LocalBasePointer e (ops_treeStore s) = Inr localbase"
    and "RemoteBasePointer e (ops_treeStore s) = Inr remotebase"
    and "Fields cmd = ''push'' # args"
  shows
    "(localbase \<noteq> remotebase \<longrightarrow>
        (\<exists>s'. runCommand e s cmd = Some (Some (pullFirst e localbase remotebase), s') \<and>
              calls s' = calls s \<and> ops_treeStore s' = ops_treeStore s \<and> ops_tree s' = ops_tree s) \<and>
        (fids s (r_Fid r) = AuxCtl \<and> tc_Data (r_Tc r) = cmd \<longrightarrow>
           (\<exists>s'. ops_Write e s r = Some (s', [Rerror (pullFirst e localbase remotebase)]) \<and>
                 calls s' = calls s \<and> ops_treeStore s' = ops_treeStore s \<and>
                 ops_tree s' = ops_tree s)))
     \<and> (localbase = remotebase \<longrightarrow>
          (\<forall>err s'. runCommand e s cmd = Some (err, s') \<longrightarrow>
             (\<exists>rest. calls s' = calls s @ Call_Flush # rest)) \<and>
          (t_nodes (ops_tree s) (t_root (ops_tree s)) \<noteq> None \<longrightarrow> runCommand e s cmd \<noteq> None))"
proof (intro conjI impI allI)
  assume ne: "localbase \<noteq> remotebase"
  show "\<exists>s'. runCommand e s cmd = Some (Some (pullFirst e localbase remotebase), s') \<and>
              calls s' = calls s \<and> ops_treeStore s' = ops_treeStore s \<and> ops_tree s' = ops_tree s"
    by (simp add: runCommand_push[OF assms(3)] push_rejected[OF assms(1,2) ne] pullFirst_def)
  assume w: "fids s (r_Fid r) = AuxCtl \<and> tc_Data (r_Tc r) = cmd"
  let ?s1 = "s\<lparr>ops_c := (ops_c s)\<lparr>c_D := (c_D (ops_c s))\<lparr>d_Mtime := e_now e\<rparr>\<rparr>\<rparr>"
  have "LocalBasePointer e (ops_treeStore ?s1) = Inr localbase"
    "RemoteBasePointer e (ops_treeStore ?s1) = Inr remotebase"
    using assms(1,2) by simp_all
  from push_rejected[OF this ne] w
  show "\<exists>s'. ops_Write e s r = Some (s', [Rerror (pullFirst e localbase remotebase)]) \<and>
                 calls s' = calls s \<and> ops_treeStore s' = ops_treeStore s \<and>
                 ops_tree s' = ops_tree s"
    by (simp add: Write_ctl runCommand_push[OF assms(3)] pullFirst_def)
next
  fix err s'
  assume eq: "localbase = remotebase" and run: "runCommand e s cmd = Some (err, s')"
  from run obtain out s1 where p: "push e s = Some (err, out, s1)" and c: "calls s' = calls s1"
    by (auto simp: runCommand_push[OF assms(3)] split: option.splits)
  from push_allowed[OF assms(1) _ p] assms(2) eq c
  show "\<exists>rest. calls s' = calls s @ Call_Flush # rest" by simp
next
  assume "localbase = remotebase" "t_nodes (ops_tree s) (t_root (ops_tree s)) \<noteq> None"
  from push_returns[OF this(2), of e]
  show "runCommand e s cmd \<noteq> None"
    by (auto simp: runCommand_push[OF assms(3)] split: option.splits)
qed


theorem C1_push_precondition_witness:
  "(\<exists>s'. runCommand ex_env
           (ex_ops\<lparr>ops_treeStore := \<lparr>st_localBase = ''r1'', st_remoteBase = ''r2'', st_revisions = []\<rparr>\<rparr>)
           ''push'' =
         Some (Some (Errorf ''local base r1 does not match remote base r2, pull first''), s') \<and>
         calls s' = [] \<and> st_revisions (ops_treeStore s') = [] \<and> ops_tree s' = ex_tree)
   \<and> (\<exists>err s' rest. runCommand ex_env ex_ops ''push'' = Some (err, s') \<and>
          calls s' = Call_Flush # rest)"
proof -
  have f: "Fields ''push'' = ''push'' # []"
    by (simp add: Fields_def byte_def)
  let ?s = "ex_ops\<lparr>ops_treeStore := \<lparr>st_localBase = ''r1'', st_remoteBase = ''r2'', st_revisions = []\<rparr>\<rparr>"
  have a: "LocalBasePointer ex_env (ops_treeStore ?s) = Inr ''r1''"
    "RemoteBasePointer ex_env (ops_treeStore ?s) = Inr ''r2''"
    by (simp_all add: LocalBasePointer_def RemoteBasePointer_def ex_env_def)
  have b: "LocalBasePointer ex_env (ops_treeStore ex_ops) = Inr ''r1''"
    "RemoteBasePointer ex_env (ops_treeStore ex_ops) = Inr ''r1''"
    by (simp_all add: LocalBasePointer_def RemoteBasePointer_def ex_env_def ex_ops_def)
  have r: "t_nodes (ops_tree ex_ops) (t_root (ops_tree ex_ops)) \<noteq> None"
    by (simp add: ex_ops_def ex_tree_def)
  have e: "pullFirst ex_env ''r1'' ''r2'' =
      Errorf ''local base r1 does not match remote base r2, pull first''"
    by (simp add: pullFirst_def ex_env_def)
  from C1_push_precondition[OF a f] obtain s' where
    "runCommand ex_env ?s ''push'' = Some (Some (pullFirst ex_env ''r1'' ''r2''), s')"
    "calls s' = calls ?s" "ops_treeStore s' = ops_treeStore ?s" "ops_tree s' = ops_tree ?s"
    by auto
  then have 1: "\<exists>s'. runCommand ex_env ?s ''push'' =
         Some (Some (Errorf ''local base r1 does not match remote base r2, pull first''), s') \<and>
         calls s' = [] \<and> st_revisions (ops_treeStore s') = [] \<and> ops_tree s' = ex_tree"
    by (simp add: e ex_ops_def)
  from C1_push_precondition[OF b f] r
  have 2: "(\<forall>err s'. runCommand ex_env ex_ops ''push'' = Some (err, s') \<longrightarrow>
          (\<exists>rest. calls s' = Call_Flush # rest)) \<and> runCommand ex_env ex_ops ''push'' \<noteq> None"
    by (simp add: ex_ops_def)
  then obtain err s' where "runCommand ex_env ex_ops ''push'' = Some (err, s')" by auto
  with 2 have 3: "\<exists>err s' rest. runCommand ex_env ex_ops ''push'' = Some (err, s') \<and>
          calls s' = Call_Flush # rest"
    by blast
  from 1 3 show ?thesis by (intro conjI)
qed

text \<open>
  C2. The pull command and the base pointers, when the store yields both. Equal bases:
  the output is "local base matches remote base, pull is a no-op" and the store is as
  before. Different bases, both revisions load and the worklog is computed: when the
  worklog is empty and the store takes the write, the only call is
  \<^verbatim>\<open>SetLocalBasePointer\<close> of the remote base, after which both bases are the remote base;
  when the worklog is not empty, it is the output and the store is as before.
\<close>

theorem C2_pull_base_pointers:
  assumes "LocalBasePointer e (ops_treeStore s) = Inr localbase"
    and "RemoteBasePointer e (ops_treeStore s) = Inr remotebase"
    and "Fields cmd = ''pull'' # args"
  shows
    "(localbase = remotebase \<longrightarrow>
        (\<exists>s'. runCommand e s cmd = Some (None, s') \<and>
              c_contents (ops_c s') = ''local base matches remote base, pull is a no-op'' @ nl \<and>
              ops_treeStore s' = ops_treeStore s \<and> calls s' = calls s))
     \<and> (localbase \<noteq> remotebase \<and> NewTree e localbase = None \<and> NewTree e remotebase = None \<and>
          e_PullWorklog e = Inr commands \<longrightarrow>
          (commands = [] \<and> e_fault e F_SetLocalBasePointer = None \<longrightarrow>
             (\<exists>s'. runCommand e s cmd = Some (None, s') \<and>
                   calls s' = calls s @ [Call_SetLocalBasePointer remotebase] \<and>
                   st_localBase (ops_treeStore s') = remotebase \<and>
                   st_remoteBase (ops_treeStore s') = remotebase)) \<and>
          (commands \<noteq> [] \<longrightarrow>
             (\<exists>s'. runCommand e s cmd = Some (None, s') \<and>
                   c_contents (ops_c s') = commands \<and>
                   ops_treeStore s' = ops_treeStore s \<and> calls s' = calls s)))"
proof (intro conjI impI)
  assume "localbase = remotebase"
  with pull_noop[OF assms(1)] assms(2)
  show "\<exists>s'. runCommand e s cmd = Some (None, s') \<and>
              c_contents (ops_c s') = ''local base matches remote base, pull is a no-op'' @ nl \<and>
              ops_treeStore s' = ops_treeStore s \<and> calls s' = calls s"
    by (simp add: runCommand_pull[OF assms(3)])
next
  assume d: "localbase \<noteq> remotebase \<and> NewTree e localbase = None \<and> NewTree e remotebase = None \<and>
          e_PullWorklog e = Inr commands"
  assume c: "commands = [] \<and> e_fault e F_SetLocalBasePointer = None"
  have rb: "st_remoteBase (ops_treeStore s) = remotebase"
    using assms(2) by (auto simp: RemoteBasePointer_def split: option.splits)
  from d c have "pull e s = Some (None, ''no commands to run, pull is a no-op'' @ nl,
           s\<lparr>calls := calls s @ [Call_SetLocalBasePointer remotebase],
             ops_treeStore := (ops_treeStore s)\<lparr>st_localBase := remotebase\<rparr>\<rparr>)"
    by (intro pull_fast_forward[OF assms(1,2)]) simp_all
  then show "\<exists>s'. runCommand e s cmd = Some (None, s') \<and>
                   calls s' = calls s @ [Call_SetLocalBasePointer remotebase] \<and>
                   st_localBase (ops_treeStore s') = remotebase \<and>
                   st_remoteBase (ops_treeStore s') = remotebase"
    by (simp add: runCommand_pull[OF assms(3)] rb)
next
  assume d: "localbase \<noteq> remotebase \<and> NewTree e localbase = None \<and> NewTree e remotebase = None \<and>
          e_PullWorklog e = Inr commands"
  assume c: "commands \<noteq> []"
  from d c have "pull e s = Some (None, commands, s)"
    by (intro pull_worklog[OF assms(1,2)]) simp_all
  then show "\<exists>s'. runCommand e s cmd = Some (None, s') \<and>
                   c_contents (ops_c s') = commands \<and>
                   ops_treeStore s' = ops_treeStore s \<and> calls s' = calls s"
    by (simp add: runCommand_pull[OF assms(3)])
qed

theorem C2_pull_base_pointers_witness:
  "(\<exists>s'. runCommand ex_env ex_ops ''pull'' = Some (None, s') \<and>
         c_contents (ops_c s') = ''local base matches remote base, pull is a no-op'' @ nl \<and>
         st_localBase (ops_treeStore s') = ''r1'' \<and> st_remoteBase (ops_treeStore s') = ''r1'')
   \<and> (\<exists>s'. runCommand ex_env
           (ex_ops\<lparr>ops_treeStore := \<lparr>st_localBase = ''r1'', st_remoteBase = ''r2'', st_revisions = []\<rparr>\<rparr>)
           ''pull'' = Some (None, s') \<and>
         st_localBase (ops_treeStore s') = ''r2'' \<and> st_remoteBase (ops_treeStore s') = ''r2'')
   \<and> (\<exists>s'. runCommand (ex_env\<lparr>e_PullWorklog := Inr ''unlink a''\<rparr>)
           (ex_ops\<lparr>ops_treeStore := \<lparr>st_localBase = ''r1'', st_remoteBase = ''r2'', st_revisions = []\<rparr>\<rparr>)
           ''pull'' = Some (None, s') \<and>
         c_contents (ops_c s') = ''unlink a'' \<and>
         st_localBase (ops_treeStore s') = ''r1'' \<and> st_remoteBase (ops_treeStore s') = ''r2'')"
proof -
  have f: "Fields ''pull'' = ''pull'' # []"
    by (simp add: Fields_def byte_def)
  let ?s = "ex_ops\<lparr>ops_treeStore := \<lparr>st_localBase = ''r1'', st_remoteBase = ''r2'', st_revisions = []\<rparr>\<rparr>"
  let ?e = "ex_env\<lparr>e_PullWorklog := Inr ''unlink a''\<rparr>"
  have a: "LocalBasePointer ex_env (ops_treeStore ex_ops) = Inr ''r1''"
    "RemoteBasePointer ex_env (ops_treeStore ex_ops) = Inr ''r1''"
    by (simp_all add: LocalBasePointer_def RemoteBasePointer_def ex_env_def ex_ops_def)
  have b: "LocalBasePointer ex_env (ops_treeStore ?s) = Inr ''r1''"
    "RemoteBasePointer ex_env (ops_treeStore ?s) = Inr ''r2''"
    by (simp_all add: LocalBasePointer_def RemoteBasePointer_def ex_env_def)
  have c: "LocalBasePointer ?e (ops_treeStore ?s) = Inr ''r1''"
    "RemoteBasePointer ?e (ops_treeStore ?s) = Inr ''r2''"
    by (simp_all add: LocalBasePointer_def RemoteBasePointer_def ex_env_def)
  have nb: "NewTree ex_env ''r1'' = None" "NewTree ex_env ''r2'' = None"
    "e_PullWorklog ex_env = Inr []" "e_fault ex_env F_SetLocalBasePointer = None"
    by (simp_all add: NewTree_def ex_env_def)
  have nc: "NewTree ?e ''r1'' = None" "NewTree ?e ''r2'' = None"
    "e_PullWorklog ?e = Inr ''unlink a''"
    by (simp_all add: NewTree_def ex_env_def)
  from C2_pull_base_pointers[OF a f]
  have 1: "\<exists>s'. runCommand ex_env ex_ops ''pull'' = Some (None, s') \<and>
         c_contents (ops_c s') = ''local base matches remote base, pull is a no-op'' @ nl \<and>
         st_localBase (ops_treeStore s') = ''r1'' \<and> st_remoteBase (ops_treeStore s') = ''r1''"
    by (auto simp: ex_ops_def)
  from C2_pull_base_pointers[OF b f, where commands = "[]"] nb
  have 2: "\<exists>s'. runCommand ex_env ?s ''pull'' = Some (None, s') \<and>
         st_localBase (ops_treeStore s') = ''r2'' \<and> st_remoteBase (ops_treeStore s') = ''r2''"
    by auto
  from C2_pull_base_pointers[OF c f, where commands = "''unlink a''"] nc
  have 3: "\<exists>s'. runCommand ?e ?s ''pull'' = Some (None, s') \<and>
         c_contents (ops_c s') = ''unlink a'' \<and>
         st_localBase (ops_treeStore s') = ''r1'' \<and> st_remoteBase (ops_treeStore s') = ''r2''"
    by auto
  from 1 2 3 show ?thesis by (intro conjI)
qed

text \<open>
  C3. When the local base equals the remote base and no call into the engine or the store
  fails, push returns without error after exactly these calls, in this order: \<^verbatim>\<open>Flush\<close>,
  \<^verbatim>\<open>Seal\<close>, \<^verbatim>\<open>StoreRevision\<close> of a new revision whose root is the pointer of the root
  node and whose parent is the remote base, \<^verbatim>\<open>SetRevision\<close> of that revision,
  \<^verbatim>\<open>SetRemoteBasePointer\<close> of its key, \<^verbatim>\<open>SetLocalBasePointer\<close> of the same key.
  Afterwards the revision is stored and current, and the local base and the remote base
  are both the key of the new revision.
\<close>

theorem C3_push_sequence:
  assumes "LocalBasePointer e (ops_treeStore s) = Inr base"
    and "RemoteBasePointer e (ops_treeStore s) = Inr base"
    and "e_fault e F_Flush = None" "e_fault e F_Seal = None" "e_fault e F_StoreRevision = None"
      "e_fault e F_SetRemoteBasePointer = None" "e_fault e F_SetLocalBasePointer = None"
    and "t_nodes (ops_tree s) (t_root (ops_tree s)) = Some localroot"
    and "Fields cmd = ''push'' # args"
  shows "\<exists>s'. runCommand e s cmd = Some (None, s') \<and>
           rev_root (NewRevision e localroot base) = n_pointer localroot \<and>
           rev_parent (NewRevision e localroot base) = base \<and>
           calls s' = calls s @
             [Call_Flush, Call_Seal,
              Call_StoreRevision (NewRevision e localroot base),
              Call_SetRevision (NewRevision e localroot base),
              Call_SetRemoteBasePointer (e_Key e (NewRevision e localroot base)),
              Call_SetLocalBasePointer (e_Key e (NewRevision e localroot base))] \<and>
           st_revisions (ops_treeStore s') =
             NewRevision e localroot base # st_revisions (ops_treeStore s) \<and>
           t_revision (ops_tree s') = Some (NewRevision e localroot base) \<and>
           st_remoteBase (ops_treeStore s') = e_Key e (NewRevision e localroot base) \<and>
           st_localBase (ops_treeStore s') = e_Key e (NewRevision e localroot base) \<and>
           LocalBasePointer e (ops_treeStore s') = RemoteBasePointer e (ops_treeStore s')"
proof -
  from push_sequence[OF assms(1-8)] obtain out s1 where
    p: "push e s = Some (None, out, s1)"
    and c: "calls s1 = calls s @
             [Call_Flush, Call_Seal,
              Call_StoreRevision (NewRevision e localroot base),
              Call_SetRevision (NewRevision e localroot base),
              Call_SetRemoteBasePointer (e_Key e (NewRevision e localroot base)),
              Call_SetLocalBasePointer (e_Key e (NewRevision e localroot base))]"
    and r: "t_revision (ops_tree s1) = Some (NewRevision e localroot base)"
      "st_revisions (ops_treeStore s1) = NewRevision e localroot base # st_revisions (ops_treeStore s)"
      "st_remoteBase (ops_treeStore s1) = e_Key e (NewRevision e localroot base)"
      "st_localBase (ops_treeStore s1) = e_Key e (NewRevision e localroot base)"
    by blast
  have f: "e_fault e F_LocalBasePointer = None" "e_fault e F_RemoteBasePointer = None"
    using assms(1,2)
    by (auto simp: LocalBasePointer_def RemoteBasePointer_def split: option.splits)
  show ?thesis
    using c r f
    by (simp add: runCommand_push[OF assms(9)] p NewRevision_def LocalBasePointer_def
        RemoteBasePointer_def)
qed

theorem C3_push_sequence_witness:
  "\<exists>s'. runCommand ex_env ex_ops ''push'' = Some (None, s') \<and>
     calls s' =
       [Call_Flush, Call_Seal,
        Call_StoreRevision \<lparr>rev_root = ''proot'', rev_parent = ''r1'', rev_host = ''host'', rev_when = 2000\<rparr>,
        Call_SetRevision \<lparr>rev_root = ''proot'', rev_parent = ''r1'', rev_host = ''host'', rev_when = 2000\<rparr>,
        Call_SetRemoteBasePointer ''kprootr1'',
        Call_SetLocalBasePointer ''kprootr1''] \<and>
     st_remoteBase (ops_treeStore s') = ''kprootr1'' \<and>
     st_localBase (ops_treeStore s') = ''kprootr1''"
proof -
  have f: "Fields ''push'' = ''push'' # []"
    by (simp add: Fields_def byte_def)
  have b: "LocalBasePointer ex_env (ops_treeStore ex_ops) = Inr ''r1''"
    "RemoteBasePointer ex_env (ops_treeStore ex_ops) = Inr ''r1''"
    by (simp_all add: LocalBasePointer_def RemoteBasePointer_def ex_env_def ex_ops_def)
  have n: "e_fault ex_env F_Flush = None" "e_fault ex_env F_Seal = None"
    "e_fault ex_env F_StoreRevision = None" "e_fault ex_env F_SetRemoteBasePointer = None"
    "e_fault ex_env F_SetLocalBasePointer = None"
    by (simp_all add: ex_env_def)
  have r: "t_nodes (ops_tree ex_ops) (t_root (ops_tree ex_ops)) =
      Some (ex_node 1 (DMDIR OR 0x1ED) ''root'' 0 [(''a'', 1), (''d'', 2), (''lock'', 5)] [] False)"
    by (simp add: ex_ops_def ex_tree_def)
  have k: "NewRevision ex_env
        (ex_node 1 (DMDIR OR 0x1ED) ''root'' 0 [(''a'', 1), (''d'', 2), (''lock'', 5)] [] False) ''r1'' =
      \<lparr>rev_root = ''proot'', rev_parent = ''r1'', rev_host = ''host'', rev_when = 2000\<rparr>"
    by (simp add: NewRevision_def ex_env_def ex_node_def)
  have k2: "e_Key ex_env \<lparr>rev_root = ''proot'', rev_parent = ''r1'', rev_host = ''host'', rev_when = 2000\<rparr>
      = ''kprootr1''"
    by (simp add: ex_env_def)
  from C3_push_sequence[OF b n r f] obtain s' where
    "runCommand ex_env ex_ops ''push'' = Some (None, s')"
    "calls s' = calls ex_ops @
       [Call_Flush, Call_Seal,
        Call_StoreRevision \<lparr>rev_root = ''proot'', rev_parent = ''r1'', rev_host = ''host'', rev_when = 2000\<rparr>,
        Call_SetRevision \<lparr>rev_root = ''proot'', rev_parent = ''r1'', rev_host = ''host'', rev_when = 2000\<rparr>,
        Call_SetRemoteBasePointer ''kprootr1'',
        Call_SetLocalBasePointer ''kprootr1'']"
    "st_remoteBase (ops_treeStore s') = ''kprootr1''"
    "st_localBase (ops_treeStore s') = ''kprootr1''"
    unfolding k k2 by blast
  then show ?thesis by (simp add: ex_ops_def)
qed

section \<open>The control fid\<close>

text \<open>
  C9. On the control fid, a Walk with one or more names, a Create, a Remove and a Wstat
  are each answered with the permission error and change nothing. A Walk from the control
  fid succeeds exactly when it has no name: then the new fid is the control fid as well.
  A Walk of the single name \<^verbatim>\<open>ctl\<close> from a fid at the root of the tree (the root not
  removed) makes the new fid the control fid and answers with the qid of the control
  file.
\<close>

theorem C9_control_fid:
  assumes "fids s (r_Fid r) = AuxCtl"
  shows
    "(tc_Wname (r_Tc r) \<noteq> [] \<longrightarrow> ops_Walk e s r = Some (s, [Rerror Eperm]))
     \<and> ops_Create e s r = Some (s, [Rerror Eperm])
     \<and> ops_Remove e s r = Some (s, [Rerror Eperm])
     \<and> ops_Wstat e s r = Some (s, [Rerror Eperm])
     \<and> (tc_Wname (r_Tc r) = [] \<longrightarrow>
          ops_Walk e s r = Some (s\<lparr>fids := (fids s)(r_Newfid r := AuxCtl)\<rparr>, [Rwalk []]))
     \<and> (fid_at s (r_Fid rw) a node nd \<and> IsRoot (fs_Node node) nd \<and> \<not> Unlinked nd \<and>
          tc_Wname (r_Tc rw) = [''ctl''] \<longrightarrow>
          ops_Walk e s rw =
            Some (s\<lparr>fids := (fids s)(r_Newfid rw := AuxCtl)\<rparr>, [Rwalk [d_Qid (c_D (ops_c s))]]))"
  using assms
  by (simp add: ops_Walk_def ops_Create_def ops_Remove_def ops_Wstat_def fid_at_def)

theorem C9_control_fid_witness:
  "ops_Walk ex_env ex_ops (ex_req 2 (ex_tc\<lparr>tc_Wname := [''a'']\<rparr>)) = Some (ex_ops, [Rerror Eperm])
   \<and> ops_Create ex_env ex_ops (ex_req 2 (ex_tc\<lparr>tc_Wname := [''a'']\<rparr>)) = Some (ex_ops, [Rerror Eperm])
   \<and> ops_Remove ex_env ex_ops (ex_req 2 (ex_tc\<lparr>tc_Wname := [''a'']\<rparr>)) = Some (ex_ops, [Rerror Eperm])
   \<and> ops_Wstat ex_env ex_ops (ex_req 2 (ex_tc\<lparr>tc_Wname := [''a'']\<rparr>)) = Some (ex_ops, [Rerror Eperm])
   \<and> ops_Walk ex_env ex_ops (ex_req 2 ex_tc) =
       Some (ex_ops\<lparr>fids := (fids ex_ops)(7 := AuxCtl)\<rparr>, [Rwalk []])
   \<and> ops_Walk ex_env ex_ops (ex_req 0 (ex_tc\<lparr>tc_Wname := [''ctl'']\<rparr>)) =
       Some (ex_ops\<lparr>fids := (fids ex_ops)(7 := AuxCtl)\<rparr>,
             [Rwalk [\<lparr>q_Type = 0, q_Version = 0, q_Path = 0xABCDEF\<rparr>]])"
proof -
  let ?root = "ex_node 1 (DMDIR OR 0x1ED) ''root'' 0 [(''a'', 1), (''d'', 2), (''lock'', 5)] [] False"
  let ?fs = "\<lparr>fs_Node = 0, fs_dirb = [], fs_lock = None\<rparr>"
  let ?ra = "ex_req 2 (ex_tc\<lparr>tc_Wname := [''a'']\<rparr>)"
  let ?rw = "ex_req 0 (ex_tc\<lparr>tc_Wname := [''ctl'']\<rparr>)"
  have ca: "fids ex_ops (r_Fid ?ra) = AuxCtl"
    and cb: "fids ex_ops (r_Fid (ex_req 2 ex_tc)) = AuxCtl"
    by (simp_all add: ex_ops_def ex_req_def)
  have f: "fid_at ex_ops (r_Fid ?rw) 10 ?fs ?root"
    by (simp add: fid_at_def ex_ops_def ex_tree_def ex_req_def)
  have u: "IsRoot (fs_Node ?fs) ?root" "\<not> Unlinked ?root"
    by (simp_all add: IsRoot_def Unlinked_def ex_node_def)
  have n: "tc_Wname (r_Tc ?ra) \<noteq> []" "tc_Wname (r_Tc ?rw) = [''ctl'']"
    "tc_Wname (r_Tc (ex_req 2 ex_tc)) = []"
    by (simp_all add: ex_req_def ex_tc_def)
  have q: "d_Qid (c_D (ops_c ex_ops)) = \<lparr>q_Type = 0, q_Version = 0, q_Path = 0xABCDEF\<rparr>"
    by (simp add: ex_ops_def)
  have k: "r_Newfid ?rw = 7" "r_Newfid (ex_req 2 ex_tc) = 7"
    by (simp_all add: ex_req_def)
  note t1 = C9_control_fid[OF ca, where e = ex_env and rw = ?rw and a = 10 and node = ?fs and nd = ?root]
  note t2 = C9_control_fid[OF cb, where e = ex_env and rw = ?rw and a = 10 and node = ?fs and nd = ?root]
  from t1 have w1: "ops_Walk ex_env ex_ops ?ra = Some (ex_ops, [Rerror Eperm])"
    using n(1) by blast
  from t1 have w2: "ops_Create ex_env ex_ops ?ra = Some (ex_ops, [Rerror Eperm])" by blast
  from t1 have w3: "ops_Remove ex_env ex_ops ?ra = Some (ex_ops, [Rerror Eperm])" by blast
  from t1 have w4: "ops_Wstat ex_env ex_ops ?ra = Some (ex_ops, [Rerror Eperm])" by blast
  from t2 have w5: "ops_Walk ex_env ex_ops (ex_req 2 ex_tc) =
       Some (ex_ops\<lparr>fids := (fids ex_ops)(7 := AuxCtl)\<rparr>, [Rwalk []])"
    using n(3) k(2) by simp
  from t1 have "ops_Walk ex_env ex_ops ?rw =
       Some (ex_ops\<lparr>fids := (fids ex_ops)(r_Newfid ?rw := AuxCtl)\<rparr>,
             [Rwalk [d_Qid (c_D (ops_c ex_ops))]])"
    using f u n(2) by blast
  then have w6: "ops_Walk ex_env ex_ops ?rw =
       Some (ex_ops\<lparr>fids := (fids ex_ops)(7 := AuxCtl)\<rparr>,
             [Rwalk [\<lparr>q_Type = 0, q_Version = 0, q_Path = 0xABCDEF\<rparr>]])"
    by (simp only: q k)
  from w1 w2 w3 w4 w5 w6 show ?thesis by (intro conjI)
qed

section \<open>Open with the remove-on-close bit\<close>

text \<open>
  C10. The claim: an Open whose mode has ORCLOSE is answered with the permission error,
  has no effect on the node and gets no second response. The handler calls
  \<^verbatim>\<open>RespondError(srv.Eperm)\<close> and does not return. At an Open of \<^verbatim>\<open>/a\<close> (a file holding
  \<^verbatim>\<open>hello\<close>) with ORCLOSE and OTRUNC it responds with the error, truncates the file and
  responds a second time, with Ropen.
\<close>

theorem C10_Open_ORCLOSE_goes_on:
  "ops_Open ex_env ex_ops (ex_req 1 (ex_tc\<lparr>tc_Mode := ORCLOSE OR OTRUNC\<rparr>)) \<noteq> None \<and>
   snd (the (ops_Open ex_env ex_ops (ex_req 1 (ex_tc\<lparr>tc_Mode := ORCLOSE OR OTRUNC\<rparr>)))) =
     [Rerror Eperm, Ropen \<lparr>q_Type = 0, q_Version = 1, q_Path = 2\<rparr> 0] \<and>
   map_option n_data (t_nodes (ops_tree ex_ops) 1) = Some ''hello'' \<and>
   map_option n_data
     (t_nodes (ops_tree (fst (the (ops_Open ex_env ex_ops
        (ex_req 1 (ex_tc\<lparr>tc_Mode := ORCLOSE OR OTRUNC\<rparr>)))))) 1) = Some []"
  by (simp add: ops_Open_def ex_ops_def ex_tree_def ex_node_def ex_env_def ex_req_def ex_tc_def
      Unlinked_def IsDir_def NodeQID_def moreMode_def node_Truncate_def upd_node_def bump_def
      resize_def tree_DMDIR_def DMEXCL_def ORCLOSE_def OTRUNC_def Let_def)

section \<open>Requests on a fid whose node was removed\<close>

text \<open>
  C6, as stated, fails: an Open with ORCLOSE on a fid whose node is unlinked is answered
  with the permission error first; the unlinked error is the second response of the
  handler.
\<close>

theorem C6_unlinked_counterexample:
  "fid_at ex_ops 3 12 \<lparr>fs_Node = 4, fs_dirb = [], fs_lock = None\<rparr>
     (ex_node 5 0x1A4 ''gone'' 0 [] ''old'' True) \<and>
   Unlinked (ex_node 5 0x1A4 ''gone'' 0 [] ''old'' True) \<and>
   ops_Open ex_env ex_ops (ex_req 3 (ex_tc\<lparr>tc_Mode := ORCLOSE\<rparr>)) =
     Some (ex_ops, [Rerror Eperm, Rerror Eunlinked])"
  by (simp add: fid_at_def ops_Open_def ex_ops_def ex_tree_def ex_node_def ex_req_def ex_tc_def
      Unlinked_def ORCLOSE_def Let_def)

text \<open>
  C6, amended. On a fid whose node is marked unlinked, a Walk (with or without names), a
  Create, a Write, a Remove, a Stat and a Wstat, an Open whose mode has no ORCLOSE, and a
  Read whose response buffer \<^verbatim>\<open>p.InitRread\<close> could set up, are each answered with the one
  response "fid points to unlinked node", and the state of the server (the tree, the
  fids, the tables) is as before.
\<close>

theorem C6_unlinked:
  assumes "fid_at s (r_Fid r) a node nd" and "Unlinked nd"
  shows
    "ops_Walk e s r = Some (s, [Rerror Eunlinked])
     \<and> (tc_Mode (r_Tc r) AND ORCLOSE = 0 \<longrightarrow> ops_Open e s r = Some (s, [Rerror Eunlinked]))
     \<and> ops_Create e s r = Some (s, [Rerror Eunlinked])
     \<and> (e_fault e F_InitRread = None \<longrightarrow> ops_Read e s r = Some (s, [Rerror Eunlinked]))
     \<and> ops_Write e s r = Some (s, [Rerror Eunlinked])
     \<and> ops_Remove e s r = Some (s, [Rerror Eunlinked])
     \<and> ops_Stat e s r = Some (s, [Rerror Eunlinked])
     \<and> ops_Wstat e s r = Some (s, [Rerror Eunlinked])"
  using assms
  by (simp add: fid_at_def ops_Walk_def ops_Open_def ops_Create_def ops_Read_def ops_Write_def
      ops_Remove_def ops_Stat_def ops_Wstat_def)

theorem C6_unlinked_witness:
  "ops_Walk ex_env ex_ops (ex_req 3 (ex_tc\<lparr>tc_Wname := [''x'']\<rparr>)) = Some (ex_ops, [Rerror Eunlinked])
   \<and> ops_Open ex_env ex_ops (ex_req 3 (ex_tc\<lparr>tc_Wname := [''x'']\<rparr>)) = Some (ex_ops, [Rerror Eunlinked])
   \<and> ops_Create ex_env ex_ops (ex_req 3 (ex_tc\<lparr>tc_Wname := [''x'']\<rparr>)) = Some (ex_ops, [Rerror Eunlinked])
   \<and> ops_Read ex_env ex_ops (ex_req 3 (ex_tc\<lparr>tc_Wname := [''x'']\<rparr>)) = Some (ex_ops, [Rerror Eunlinked])
   \<and> ops_Write ex_env ex_ops (ex_req 3 (ex_tc\<lparr>tc_Wname := [''x'']\<rparr>)) = Some (ex_ops, [Rerror Eunlinked])
   \<and> ops_Remove ex_env ex_ops (ex_req 3 (ex_tc\<lparr>tc_Wname := [''x'']\<rparr>)) = Some (ex_ops, [Rerror Eunlinked])
   \<and> ops_Stat ex_env ex_ops (ex_req 3 (ex_tc\<lparr>tc_Wname := [''x'']\<rparr>)) = Some (ex_ops, [Rerror Eunlinked])
   \<and> ops_Wstat ex_env ex_ops (ex_req 3 (ex_tc\<lparr>tc_Wname := [''x'']\<rparr>)) = Some (ex_ops, [Rerror Eunlinked])"
proof -
  let ?r = "ex_req 3 (ex_tc\<lparr>tc_Wname := [''x'']\<rparr>)"
  have f: "fid_at ex_ops (r_Fid ?r) 12 \<lparr>fs_Node = 4, fs_dirb = [], fs_lock = None\<rparr>
     (ex_node 5 0x1A4 ''gone'' 0 [] ''old'' True)"
    by (simp add: fid_at_def ex_ops_def ex_tree_def ex_req_def)
  have u: "Unlinked (ex_node 5 0x1A4 ''gone'' 0 [] ''old'' True)"
    by (simp add: Unlinked_def ex_node_def)
  have m: "tc_Mode (r_Tc ?r) AND ORCLOSE = 0" "e_fault ex_env F_InitRread = None"
    by (simp_all add: ex_req_def ex_tc_def ex_env_def)
  from C6_unlinked[OF f u, of ex_env] m show ?thesis by simp
qed

section \<open>Walk on a tree node\<close>

lemma tree_resolve_length:
  "length (fst (tree_resolve t n names)) \<le> length names"
proof (induction names arbitrary: n)
  case Nil
  show ?case by simp
next
  case (Cons name names)
  show ?case
    using Cons[of "n_parent (the (t_nodes t n))"]
      Cons[of "the (map_of (n_children (the (t_nodes t n))) name)"]
    by (auto split: option.splits prod.splits)
qed

lemma tree_resolve_err:
  "snd (tree_resolve t n names) =
     (if length (fst (tree_resolve t n names)) = length names then None else Some ErrNotExist)"
proof (induction names arbitrary: n)
  case Nil
  show ?case by simp
next
  case (Cons name names)
  show ?case
    using Cons[of "n_parent (the (t_nodes t n))"]
      Cons[of "the (map_of (n_children (the (t_nodes t n))) name)"]
    by (auto split: option.splits prod.splits)
qed

lemma walk_at_node:
  assumes "fid_at s (r_Fid r) a node nd" and "\<not> Unlinked nd"
    and "tc_Wname (r_Tc r) \<noteq> []"
    and "\<not> (IsRoot (fs_Node node) nd \<and> tc_Wname (r_Tc r) = [''ctl''])"
    and "e_fault e F_Walk = None"
    and "tree_resolve (ops_tree s) (fs_Node node) (tc_Wname (r_Tc r)) = (nodes, err)"
  shows "ops_Walk e s r =
           (if nodes = [] then Some (s, [Rerror Enoent]) else walk_respond s r nodes)"
proof -
  from tree_resolve_err[of "ops_tree s" "fs_Node node" "tc_Wname (r_Tc r)"] assms(6)
  have err: "err = (if length nodes = length (tc_Wname (r_Tc r)) then None else Some ErrNotExist)"
    by simp
  show ?thesis
    using assms(1-6) err
    by (auto simp: fid_at_def ops_Walk_def tree_Walk_def)
qed


text \<open>
  C4, as stated, fails at two requests. A Walk of the single name \<^verbatim>\<open>ctl\<close> from the root,
  where the tree has no node of that name, is not answered with a not-exist error; it is
  answered with the qid of the control file, the new fid becomes the control fid, and no
  node gets a reference. And a Walk of a name from a node that was removed is answered
  with the unlinked error.
\<close>

theorem C4_walk_counterexample:
  "fid_at ex_ops 0 10 \<lparr>fs_Node = 0, fs_dirb = [], fs_lock = None\<rparr>
     (ex_node 1 (DMDIR OR 0x1ED) ''root'' 0 [(''a'', 1), (''d'', 2), (''lock'', 5)] [] False) \<and>
   tree_Walk ex_env (ops_tree ex_ops) 0 [''ctl''] = ([], Some ErrNotExist) \<and>
   ops_Walk ex_env ex_ops (ex_req 0 (ex_tc\<lparr>tc_Wname := [''ctl'']\<rparr>)) =
     Some (ex_ops\<lparr>fids := (fids ex_ops)(7 := AuxCtl)\<rparr>,
           [Rwalk [\<lparr>q_Type = 0, q_Version = 0, q_Path = 0xABCDEF\<rparr>]]) \<and>
   ops_Walk ex_env ex_ops (ex_req 3 (ex_tc\<lparr>tc_Wname := [''x'']\<rparr>)) =
     Some (ex_ops, [Rerror Eunlinked])"
  by (simp add: fid_at_def ops_Walk_def tree_Walk_def ex_ops_def ex_tree_def ex_node_def
      ex_env_def ex_req_def ex_tc_def Unlinked_def IsRoot_def)

text \<open>
  C4, amended. For a Walk with at least one name on a fid at a tree node that is not
  marked unlinked, other than the single name \<^verbatim>\<open>ctl\<close> from the root, when loading fails
  for no node: let \<open>nodes\<close> be the nodes of the longest prefix of the names that resolves
  (all of them held by the tree). If no name resolves, the answer is the not-exist error
  and the state is as before. If a proper prefix resolves, the answer is Rwalk with the
  qids of that prefix, and the state is as before: the new fid is bound to nothing. If
  all names resolve, the answer is Rwalk with one qid per name, the new fid holds a new
  \<^verbatim>\<open>fsNode\<close> of the last node, and the reference count of that node is one more than
  before, no other node being changed.
\<close>

theorem C4_walk:
  assumes "fid_at s (r_Fid r) a node nd" and "\<not> Unlinked nd"
    and "tc_Wname (r_Tc r) \<noteq> []"
    and "\<not> (IsRoot (fs_Node node) nd \<and> tc_Wname (r_Tc r) = [''ctl''])"
    and "e_fault e F_Walk = None"
    and "tree_resolve (ops_tree s) (fs_Node node) (tc_Wname (r_Tc r)) = (nodes, err)"
    and "\<forall>n \<in> set nodes. t_nodes (ops_tree s) n \<noteq> None"
  shows
    "length nodes \<le> length (tc_Wname (r_Tc r))
     \<and> (nodes = [] \<longrightarrow> ops_Walk e s r = Some (s, [Rerror Enoent]))
     \<and> (nodes \<noteq> [] \<and> length nodes < length (tc_Wname (r_Tc r)) \<longrightarrow>
          ops_Walk e s r =
            Some (s, [Rwalk (map (\<lambda>n. NodeQID (the (t_nodes (ops_tree s) n))) nodes)]))
     \<and> (length nodes = length (tc_Wname (r_Tc r)) \<longrightarrow>
          (\<exists>s'. ops_Walk e s r =
                  Some (s', [Rwalk (map (\<lambda>n. NodeQID (the (t_nodes (ops_tree s) n))) nodes)]) \<and>
                fids s' (r_Newfid r) = AuxFsNode (nextAddr s) \<and>
                heap s' (nextAddr s) = Some \<lparr>fs_Node = last nodes, fs_dirb = [], fs_lock = None\<rparr> \<and>
                map_option n_refs (t_nodes (ops_tree s') (last nodes)) =
                  map_option (\<lambda>x. n_refs x + 1) (t_nodes (ops_tree s) (last nodes)) \<and>
                (\<forall>n. n \<noteq> last nodes \<longrightarrow> t_nodes (ops_tree s') n = t_nodes (ops_tree s) n)))"
proof -
  note w = walk_at_node[OF assms(1-6)]
  have ex: "(\<exists>n \<in> set nodes. t_nodes (ops_tree s) n = None) = False"
    using assms(7) by auto
  from tree_resolve_length[of "ops_tree s" "fs_Node node" "tc_Wname (r_Tc r)"] assms(6)
  have c0: "length nodes \<le> length (tc_Wname (r_Tc r))" by simp
  have c1: "nodes = [] \<longrightarrow> ops_Walk e s r = Some (s, [Rerror Enoent])"
    by (simp add: w)
  have c2: "nodes \<noteq> [] \<and> length nodes < length (tc_Wname (r_Tc r)) \<longrightarrow>
          ops_Walk e s r =
            Some (s, [Rwalk (map (\<lambda>n. NodeQID (the (t_nodes (ops_tree s) n))) nodes)])"
    by (simp add: w walk_respond_def ex)
  have c3: "length nodes = length (tc_Wname (r_Tc r)) \<longrightarrow>
          (\<exists>s'. ops_Walk e s r =
                  Some (s', [Rwalk (map (\<lambda>n. NodeQID (the (t_nodes (ops_tree s) n))) nodes)]) \<and>
                fids s' (r_Newfid r) = AuxFsNode (nextAddr s) \<and>
                heap s' (nextAddr s) = Some \<lparr>fs_Node = last nodes, fs_dirb = [], fs_lock = None\<rparr> \<and>
                map_option n_refs (t_nodes (ops_tree s') (last nodes)) =
                  map_option (\<lambda>x. n_refs x + 1) (t_nodes (ops_tree s) (last nodes)) \<and>
                (\<forall>n. n \<noteq> last nodes \<longrightarrow> t_nodes (ops_tree s') n = t_nodes (ops_tree s) n))"
  proof
    assume l: "length nodes = length (tc_Wname (r_Tc r))"
    with assms(3) have ne: "nodes \<noteq> []" by auto
    show "\<exists>s'. ops_Walk e s r =
                  Some (s', [Rwalk (map (\<lambda>n. NodeQID (the (t_nodes (ops_tree s) n))) nodes)]) \<and>
                fids s' (r_Newfid r) = AuxFsNode (nextAddr s) \<and>
                heap s' (nextAddr s) = Some \<lparr>fs_Node = last nodes, fs_dirb = [], fs_lock = None\<rparr> \<and>
                map_option n_refs (t_nodes (ops_tree s') (last nodes)) =
                  map_option (\<lambda>x. n_refs x + 1) (t_nodes (ops_tree s) (last nodes)) \<and>
                (\<forall>n. n \<noteq> last nodes \<longrightarrow> t_nodes (ops_tree s') n = t_nodes (ops_tree s) n)"
      using ne l
      by (auto simp: w walk_respond_def ex node_Ref_def upd_node_def Let_def split: option.splits)
  qed
  from c0 c1 c2 c3 show ?thesis by (intro conjI)
qed

theorem C4_walk_witness:
  "ops_Walk ex_env ex_ops (ex_req 0 (ex_tc\<lparr>tc_Wname := [''zzz'']\<rparr>)) = Some (ex_ops, [Rerror Enoent])
   \<and> ops_Walk ex_env ex_ops (ex_req 0 (ex_tc\<lparr>tc_Wname := [''d'', ''zzz'']\<rparr>)) =
       Some (ex_ops, [Rwalk [\<lparr>q_Type = QTDIR, q_Version = 1, q_Path = 3\<rparr>]])
   \<and> (\<exists>s'. ops_Walk ex_env ex_ops (ex_req 0 (ex_tc\<lparr>tc_Wname := [''d'', ''b'']\<rparr>)) =
             Some (s', [Rwalk [\<lparr>q_Type = QTDIR, q_Version = 1, q_Path = 3\<rparr>,
                               \<lparr>q_Type = 0, q_Version = 1, q_Path = 4\<rparr>]]) \<and>
           fids s' 7 = AuxFsNode 16 \<and>
           heap s' 16 = Some \<lparr>fs_Node = 3, fs_dirb = [], fs_lock = None\<rparr> \<and>
           map_option n_refs (t_nodes (ops_tree s') 3) = Some 2 \<and>
           map_option n_refs (t_nodes (ops_tree ex_ops) 3) = Some 1)"
proof -
  let ?root = "ex_node 1 (DMDIR OR 0x1ED) ''root'' 0 [(''a'', 1), (''d'', 2), (''lock'', 5)] [] False"
  let ?fs = "\<lparr>fs_Node = 0, fs_dirb = [], fs_lock = None\<rparr>"
  let ?r1 = "ex_req 0 (ex_tc\<lparr>tc_Wname := [''zzz'']\<rparr>)"
  let ?r2 = "ex_req 0 (ex_tc\<lparr>tc_Wname := [''d'', ''zzz'']\<rparr>)"
  let ?r3 = "ex_req 0 (ex_tc\<lparr>tc_Wname := [''d'', ''b'']\<rparr>)"
  have f: "fid_at ex_ops (r_Fid ?r1) 10 ?fs ?root" "fid_at ex_ops (r_Fid ?r2) 10 ?fs ?root"
    "fid_at ex_ops (r_Fid ?r3) 10 ?fs ?root"
    by (simp_all add: fid_at_def ex_ops_def ex_tree_def ex_req_def)
  have u: "\<not> Unlinked ?root" by (simp add: Unlinked_def ex_node_def)
  have n: "tc_Wname (r_Tc ?r1) \<noteq> []" "tc_Wname (r_Tc ?r2) \<noteq> []" "tc_Wname (r_Tc ?r3) \<noteq> []"
    "\<not> (IsRoot (fs_Node ?fs) ?root \<and> tc_Wname (r_Tc ?r1) = [''ctl''])"
    "\<not> (IsRoot (fs_Node ?fs) ?root \<and> tc_Wname (r_Tc ?r2) = [''ctl''])"
    "\<not> (IsRoot (fs_Node ?fs) ?root \<and> tc_Wname (r_Tc ?r3) = [''ctl''])"
    by (simp_all add: ex_req_def ex_tc_def)
  have e: "e_fault ex_env F_Walk = None" by (simp add: ex_env_def)
  have t1: "tree_resolve (ops_tree ex_ops) (fs_Node ?fs) (tc_Wname (r_Tc ?r1)) = ([], Some ErrNotExist)"
    and t2: "tree_resolve (ops_tree ex_ops) (fs_Node ?fs) (tc_Wname (r_Tc ?r2)) = ([2], Some ErrNotExist)"
    and t3: "tree_resolve (ops_tree ex_ops) (fs_Node ?fs) (tc_Wname (r_Tc ?r3)) = ([2, 3], None)"
    by (simp_all add: ex_ops_def ex_tree_def ex_node_def ex_req_def ex_tc_def)
  have i: "\<forall>n \<in> set []. t_nodes (ops_tree ex_ops) n \<noteq> None"
    "\<forall>n \<in> set [2]. t_nodes (ops_tree ex_ops) n \<noteq> None"
    "\<forall>n \<in> set [2, 3]. t_nodes (ops_tree ex_ops) n \<noteq> None"
    by (simp_all add: ex_ops_def ex_tree_def)
  have q: "NodeQID (the (t_nodes (ops_tree ex_ops) 2)) = \<lparr>q_Type = QTDIR, q_Version = 1, q_Path = 3\<rparr>"
    "NodeQID (the (t_nodes (ops_tree ex_ops) 3)) = \<lparr>q_Type = 0, q_Version = 1, q_Path = 4\<rparr>"
    by (simp_all add: ex_ops_def ex_tree_def ex_node_def NodeQID_def tree_DMDIR_def DMDIR_def)
  have k: "r_Newfid ?r3 = 7" "nextAddr ex_ops = 16"
    "map_option (\<lambda>x. n_refs x + 1) (t_nodes (ops_tree ex_ops) 3) = Some 2"
    "map_option n_refs (t_nodes (ops_tree ex_ops) 3) = Some 1"
    by (simp_all add: ex_req_def ex_ops_def ex_tree_def ex_node_def)
  from C4_walk[OF f(1) u n(1) n(4) e t1 i(1)]
  have w1: "ops_Walk ex_env ex_ops ?r1 = Some (ex_ops, [Rerror Enoent])" by simp
  from C4_walk[OF f(2) u n(2) n(5) e t2 i(2)]
  have w2: "ops_Walk ex_env ex_ops ?r2 =
       Some (ex_ops, [Rwalk [\<lparr>q_Type = QTDIR, q_Version = 1, q_Path = 3\<rparr>]])"
    by (simp add: q ex_req_def ex_tc_def)
  from C4_walk[OF f(3) u n(3) n(6) e t3 i(3)]
  have w3: "\<exists>s'. ops_Walk ex_env ex_ops ?r3 =
             Some (s', [Rwalk [\<lparr>q_Type = QTDIR, q_Version = 1, q_Path = 3\<rparr>,
                               \<lparr>q_Type = 0, q_Version = 1, q_Path = 4\<rparr>]]) \<and>
           fids s' 7 = AuxFsNode 16 \<and>
           heap s' 16 = Some \<lparr>fs_Node = 3, fs_dirb = [], fs_lock = None\<rparr> \<and>
           map_option n_refs (t_nodes (ops_tree s') 3) = Some 2 \<and>
           map_option n_refs (t_nodes (ops_tree ex_ops) 3) = Some 1"
    by (auto simp: q k ex_req_def ex_tc_def)
  from w1 w2 w3 show ?thesis by (intro conjI)
qed

section \<open>Wstat and the fields that cannot be changed\<close>

lemma wstat_attributes_blanks:
  "wstat_attributes e s n (dir\<lparr>d_Atime := atime, d_Muid := muid\<rparr>) = wstat_attributes e s n dir"
  by (simp add: wstat_attributes_def)

lemma wstat_attributes_illegal:
  "ChangeTypeDevQid dir \<Longrightarrow> wstat_attributes e s n dir = Some (s, [Rerror Eperm])"
  by (simp add: wstat_attributes_def ChangeIllegalFields_def ChangeTypeDevQid_def Let_def)

text \<open>
  C7, as stated, fails at two requests. A Wstat on \<^verbatim>\<open>/a\<close> (five bytes) that asks for
  length 0 and for a change of type is answered with the permission error, but the file
  has been truncated by then: the handler changes the length before it tests the
  illegal fields. A Wstat that asks for a change of type on a fid whose node is unlinked
  is answered with the unlinked error, not the permission error.
\<close>

theorem C7_wstat_counterexample:
  "ChangeTypeDevQid (dontTouch\<lparr>d_Length := 0, d_Type := 5\<rparr>) \<and>
   ops_Wstat ex_env ex_ops (ex_req 1 (ex_tc\<lparr>tc_Dir := dontTouch\<lparr>d_Length := 0, d_Type := 5\<rparr>\<rparr>)) \<noteq> None \<and>
   snd (the (ops_Wstat ex_env ex_ops
          (ex_req 1 (ex_tc\<lparr>tc_Dir := dontTouch\<lparr>d_Length := 0, d_Type := 5\<rparr>\<rparr>)))) = [Rerror Eperm] \<and>
   map_option (\<lambda>x. (ni_Size (n_info x), n_data x)) (t_nodes (ops_tree ex_ops) 1) = Some (5, ''hello'') \<and>
   map_option (\<lambda>x. (ni_Size (n_info x), n_data x))
     (t_nodes (ops_tree (fst (the (ops_Wstat ex_env ex_ops
        (ex_req 1 (ex_tc\<lparr>tc_Dir := dontTouch\<lparr>d_Length := 0, d_Type := 5\<rparr>\<rparr>)))))) 1) = Some (0, []) \<and>
   ops_Wstat ex_env ex_ops (ex_req 3 (ex_tc\<lparr>tc_Dir := dontTouch\<lparr>d_Type := 5\<rparr>\<rparr>)) =
     Some (ex_ops, [Rerror Eunlinked])"
  by (simp add: ops_Wstat_def wstat_attributes_def ex_ops_def ex_tree_def ex_node_def ex_env_def
      ex_req_def ex_tc_def dontTouch_def Unlinked_def IsDir_def tree_DMDIR_def
      ChangeLength_def ChangeIllegalFields_def ChangeTypeDevQid_def
      node_Truncate_def upd_node_def bump_def resize_def Let_def)

text \<open>
  C7, amended. On a Wstat on a fid at a tree node that is not marked unlinked, the handler
  blanks atime and muid before it tests the illegal fields, so the outcome of the request
  does not depend on the atime and the muid it carries. A request that asks for a change
  of type, dev or qid is answered with the permission error; when it asks for no change
  of length, the state of the server is as before: no node attribute is modified.
\<close>

theorem C7_wstat:
  assumes "fid_at s (r_Fid r) a node nd" and "\<not> Unlinked nd"
  shows
    "ops_Wstat e s
       (r\<lparr>r_Tc := (r_Tc r)\<lparr>tc_Dir := (tc_Dir (r_Tc r))\<lparr>d_Atime := atime, d_Muid := muid\<rparr>\<rparr>\<rparr>) =
     ops_Wstat e s r
     \<and> (ChangeTypeDevQid (tc_Dir (r_Tc r)) \<longrightarrow>
          (\<exists>s'. ops_Wstat e s r = Some (s', [Rerror Eperm])) \<and>
          (\<not> ChangeLength (tc_Dir (r_Tc r)) \<longrightarrow> ops_Wstat e s r = Some (s, [Rerror Eperm])))"
proof (intro conjI impI)
  show "ops_Wstat e s
       (r\<lparr>r_Tc := (r_Tc r)\<lparr>tc_Dir := (tc_Dir (r_Tc r))\<lparr>d_Atime := atime, d_Muid := muid\<rparr>\<rparr>\<rparr>) =
     ops_Wstat e s r"
    using assms
    by (simp add: ops_Wstat_def fid_at_def ChangeLength_def wstat_attributes_blanks
        split: sum.splits)
next
  assume i: "ChangeTypeDevQid (tc_Dir (r_Tc r))"
  show "\<exists>s'. ops_Wstat e s r = Some (s', [Rerror Eperm])"
    using assms
    by (auto simp: ops_Wstat_def fid_at_def wstat_attributes_illegal[OF i] split: sum.splits)
  assume "\<not> ChangeLength (tc_Dir (r_Tc r))"
  then show "ops_Wstat e s r = Some (s, [Rerror Eperm])"
    using assms
    by (simp add: ops_Wstat_def fid_at_def wstat_attributes_illegal[OF i])
qed

theorem C7_wstat_witness:
  "ops_Wstat ex_env ex_ops
     (ex_req 1 (ex_tc\<lparr>tc_Dir := dontTouch\<lparr>d_Type := 5, d_Atime := 77, d_Muid := ''glenda''\<rparr>\<rparr>)) =
     Some (ex_ops, [Rerror Eperm])
   \<and> ops_Wstat ex_env ex_ops (ex_req 1 (ex_tc\<lparr>tc_Dir := dontTouch\<lparr>d_Type := 5\<rparr>\<rparr>)) =
     Some (ex_ops, [Rerror Eperm])
   \<and> ops_Wstat ex_env ex_ops
     (ex_req 1 (ex_tc\<lparr>tc_Dir := dontTouch\<lparr>d_Atime := 77, d_Muid := ''glenda''\<rparr>\<rparr>)) =
     ops_Wstat ex_env ex_ops (ex_req 1 (ex_tc\<lparr>tc_Dir := dontTouch\<rparr>))"
proof -
  let ?r = "ex_req 1 (ex_tc\<lparr>tc_Dir := dontTouch\<lparr>d_Type := 5\<rparr>\<rparr>)"
  let ?rz = "ex_req 1 (ex_tc\<lparr>tc_Dir := dontTouch\<rparr>)"
  have f: "fid_at ex_ops (r_Fid ?r) 11 \<lparr>fs_Node = 1, fs_dirb = [], fs_lock = None\<rparr>
             (ex_node 2 0x1A4 ''a'' 0 [] ''hello'' False)"
    "fid_at ex_ops (r_Fid ?rz) 11 \<lparr>fs_Node = 1, fs_dirb = [], fs_lock = None\<rparr>
             (ex_node 2 0x1A4 ''a'' 0 [] ''hello'' False)"
    by (simp_all add: fid_at_def ex_ops_def ex_tree_def ex_req_def)
  have u: "\<not> Unlinked (ex_node 2 0x1A4 ''a'' 0 [] ''hello'' False)"
    by (simp add: Unlinked_def ex_node_def)
  have c: "ChangeTypeDevQid (tc_Dir (r_Tc ?r))" "\<not> ChangeLength (tc_Dir (r_Tc ?r))"
    by (simp_all add: ChangeTypeDevQid_def ChangeLength_def ex_req_def ex_tc_def dontTouch_def)
  have m: "?r\<lparr>r_Tc := (r_Tc ?r)\<lparr>tc_Dir := (tc_Dir (r_Tc ?r))\<lparr>d_Atime := 77, d_Muid := ''glenda''\<rparr>\<rparr>\<rparr> =
      ex_req 1 (ex_tc\<lparr>tc_Dir := dontTouch\<lparr>d_Type := 5, d_Atime := 77, d_Muid := ''glenda''\<rparr>\<rparr>)"
    "?rz\<lparr>r_Tc := (r_Tc ?rz)\<lparr>tc_Dir := (tc_Dir (r_Tc ?rz))\<lparr>d_Atime := 77, d_Muid := ''glenda''\<rparr>\<rparr>\<rparr> =
      ex_req 1 (ex_tc\<lparr>tc_Dir := dontTouch\<lparr>d_Atime := 77, d_Muid := ''glenda''\<rparr>\<rparr>)"
    by (simp_all add: ex_req_def ex_tc_def)
  note t = C7_wstat[OF f(1) u, where e = ex_env and atime = 77 and muid = "''glenda''"]
  note t0 = C7_wstat[OF f(2) u, where e = ex_env and atime = 77 and muid = "''glenda''"]
  from t c have w2: "ops_Wstat ex_env ex_ops ?r = Some (ex_ops, [Rerror Eperm])" by blast
  from t have "ops_Wstat ex_env ex_ops
      (?r\<lparr>r_Tc := (r_Tc ?r)\<lparr>tc_Dir := (tc_Dir (r_Tc ?r))\<lparr>d_Atime := 77, d_Muid := ''glenda''\<rparr>\<rparr>\<rparr>) =
      ops_Wstat ex_env ex_ops ?r" by blast
  then have w1: "ops_Wstat ex_env ex_ops
     (ex_req 1 (ex_tc\<lparr>tc_Dir := dontTouch\<lparr>d_Type := 5, d_Atime := 77, d_Muid := ''glenda''\<rparr>\<rparr>)) =
     Some (ex_ops, [Rerror Eperm])"
    by (simp only: m w2)
  from t0 have "ops_Wstat ex_env ex_ops
      (?rz\<lparr>r_Tc := (r_Tc ?rz)\<lparr>tc_Dir := (tc_Dir (r_Tc ?rz))\<lparr>d_Atime := 77, d_Muid := ''glenda''\<rparr>\<rparr>\<rparr>) =
      ops_Wstat ex_env ex_ops ?rz" by blast
  then have w3: "ops_Wstat ex_env ex_ops
     (ex_req 1 (ex_tc\<lparr>tc_Dir := dontTouch\<lparr>d_Atime := 77, d_Muid := ''glenda''\<rparr>\<rparr>)) =
     ops_Wstat ex_env ex_ops ?rz"
    by (simp only: m)
  from w1 w2 w3 show ?thesis by (intro conjI)
qed

section \<open>Exclusive-use files\<close>

lemma Open_locked:
  assumes "fid_at s (r_Fid r) a node nd" "\<not> Unlinked nd" "tc_Mode (r_Tc r) AND ORCLOSE = 0"
    "exclusive s nd" "locks s (ni_ID (n_info nd)) = Some owner" "owner \<noteq> r_Fid r"
  shows "ops_Open e s r =
     Some (s\<lparr>heap := (heap s)(a \<mapsto> node\<lparr>fs_lock := None\<rparr>)\<rparr>, [RerrorString ''file already locked''])"
  using assms
  by (simp add: ops_Open_def fid_at_def exclusive_def lockNode_def NodeQID_def Let_def)

lemma Open_acquires_file:
  assumes "fid_at s (r_Fid r) a node nd" "\<not> Unlinked nd" "tc_Mode (r_Tc r) AND ORCLOSE = 0"
    "exclusive s nd" "locks s (ni_ID (n_info nd)) = None \<or> locks s (ni_ID (n_info nd)) = Some (r_Fid r)"
    "\<not> IsDir nd" "tc_Mode (r_Tc r) AND OTRUNC = 0"
  shows "ops_Open e s r =
     Some (s\<lparr>locks := (locks s)(ni_ID (n_info nd) \<mapsto> r_Fid r),
              heap := (heap s)(a \<mapsto> node\<lparr>fs_lock := Some (ni_ID (n_info nd))\<rparr>)\<rparr>,
           [Ropen ((NodeQID nd)\<lparr>q_Type := q_Type (NodeQID nd) OR QTEXCL\<rparr>) 0])"
  using assms
  by (auto simp: ops_Open_def fid_at_def exclusive_def lockNode_def NodeQID_def Let_def
      fun_upd_idem)

lemma Open_acquires:
  assumes "fid_at s (r_Fid r) a node nd" "\<not> Unlinked nd" "tc_Mode (r_Tc r) AND ORCLOSE = 0"
    "exclusive s nd" "locks s (ni_ID (n_info nd)) = None \<or> locks s (ni_ID (n_info nd)) = Some (r_Fid r)"
  shows "\<exists>s' rs. ops_Open e s r = Some (s', rs) \<and>
           locks s' = (locks s)(ni_ID (n_info nd) \<mapsto> r_Fid r) \<and>
           map_option fs_lock (heap s' a) = Some (Some (ni_ID (n_info nd))) \<and>
           ((IsDir nd \<longrightarrow> e_fault e F_Grow = None) \<and>
            (\<not> IsDir nd \<and> tc_Mode (r_Tc r) AND OTRUNC \<noteq> 0 \<longrightarrow> e_fault e F_Truncate = None) \<longrightarrow>
            rs = [Ropen ((NodeQID nd)\<lparr>q_Type := q_Type (NodeQID nd) OR QTEXCL\<rparr>) 0])"
  using assms
  by (auto simp: ops_Open_def fid_at_def exclusive_def lockNode_def NodeQID_def Let_def
      fun_upd_idem tree_Grow_def node_Truncate_def prepareForReads_def
      split: option.splits)

lemma Clunk_unlocks:
  assumes "fids s (r_Fid r) = AuxFsNode a" "heap s a = Some node" "fs_lock node = Some l"
  shows "ops_Clunk s r =
     Some (s\<lparr>locks := (locks s)(l := None), heap := (heap s)(a \<mapsto> node\<lparr>fs_lock := None\<rparr>)\<rparr>,
           [Rclunk])"
  using assms by (simp add: ops_Clunk_def unlockNode_def)

lemma FidDestroy_unlocks:
  assumes "fids s fid = AuxFsNode a" "heap s a = Some node" "fs_lock node = Some l"
  shows "ops_FidDestroy s fid =
     Some (s\<lparr>ops_tree := node_Unref (ops_tree s) (fs_Node node),
              locks := (locks s)(l := None), heap := (heap s)(a \<mapsto> node\<lparr>fs_lock := None\<rparr>)\<rparr>)"
  using assms by (simp add: ops_FidDestroy_def unlockNode_def Let_def)


lemma exclusive_scenario:
  assumes A: "fid_at s (r_Fid ra) a nodeA nd" and B: "fid_at s (r_Fid rb) b nodeB nd"
    and ne: "a \<noteq> b" "r_Fid ra \<noteq> r_Fid rb"
    and nd: "\<not> Unlinked nd" "\<not> IsDir nd" "exclusive s nd" "locks s (ni_ID (n_info nd)) = None"
    and ma: "tc_Mode (r_Tc ra) AND ORCLOSE = 0" "tc_Mode (r_Tc ra) AND OTRUNC = 0"
    and mb: "tc_Mode (r_Tc rb) AND ORCLOSE = 0" "tc_Mode (r_Tc rb) AND OTRUNC = 0"
  shows "\<exists>s'. run e s [Topen ra, Topen rb, Tclunk ra, Topen rb] =
           Some (s', [[Ropen ((NodeQID nd)\<lparr>q_Type := q_Type (NodeQID nd) OR QTEXCL\<rparr>) 0],
                      [RerrorString ''file already locked''],
                      [Rclunk],
                      [Ropen ((NodeQID nd)\<lparr>q_Type := q_Type (NodeQID nd) OR QTEXCL\<rparr>) 0]]) \<and>
           locks s' = (locks s)(ni_ID (n_info nd) \<mapsto> r_Fid rb)"
proof -
  define p where "p = ni_ID (n_info nd)"
  define s1 where "s1 = s\<lparr>locks := (locks s)(p \<mapsto> r_Fid ra),
                          heap := (heap s)(a \<mapsto> nodeA\<lparr>fs_lock := Some p\<rparr>)\<rparr>"
  define s2 where "s2 = s1\<lparr>heap := (heap s1)(b \<mapsto> nodeB\<lparr>fs_lock := None\<rparr>)\<rparr>"
  define s3 where "s3 = s2\<lparr>locks := (locks s2)(p := None),
                           heap := (heap s2)(a \<mapsto> nodeA\<lparr>fs_lock := None\<rparr>)\<rparr>"
  define s4 where "s4 = s3\<lparr>locks := (locks s3)(p \<mapsto> r_Fid rb),
                           heap := (heap s3)(b \<mapsto> nodeB\<lparr>fs_lock := Some p\<rparr>)\<rparr>"
  have o1: "ops_Open e s ra =
      Some (s1, [Ropen ((NodeQID nd)\<lparr>q_Type := q_Type (NodeQID nd) OR QTEXCL\<rparr>) 0])"
    unfolding s1_def p_def
    by (rule Open_acquires_file[OF A nd(1) ma(1) nd(3) _ nd(2) ma(2)]) (simp add: nd(4))
  have B1: "fid_at s1 (r_Fid rb) b nodeB nd"
    using B ne by (simp add: fid_at_def s1_def)
  have x1: "exclusive s1 nd" using nd(3) by (simp add: exclusive_def s1_def)
  have l1: "locks s1 (ni_ID (n_info nd)) = Some (r_Fid ra)" by (simp add: s1_def p_def)
  have o2: "ops_Open e s1 rb = Some (s2, [RerrorString ''file already locked''])"
    unfolding s2_def
    by (rule Open_locked[OF B1 nd(1) mb(1) x1 l1 ne(2)])
  have c3: "ops_Clunk s2 ra = Some (s3, [Rclunk])"
    unfolding s3_def
    by (rule Clunk_unlocks[where node = "nodeA\<lparr>fs_lock := Some p\<rparr>", simplified])
       (use A ne in \<open>simp_all add: fid_at_def s2_def s1_def\<close>)
  have B3: "fid_at s3 (r_Fid rb) b (nodeB\<lparr>fs_lock := None\<rparr>) nd"
    using B ne by (simp add: fid_at_def s3_def s2_def s1_def)
  have x3: "exclusive s3 nd" using nd(3) by (simp add: exclusive_def s3_def s2_def s1_def)
  have l3: "locks s3 (ni_ID (n_info nd)) = None" by (simp add: s3_def p_def)
  have o4: "ops_Open e s3 rb =
      Some (s4, [Ropen ((NodeQID nd)\<lparr>q_Type := q_Type (NodeQID nd) OR QTEXCL\<rparr>) 0])"
    using Open_acquires_file[OF B3 nd(1) mb(1) x3 _ nd(2) mb(2), of e] l3
    by (simp add: s4_def p_def)
  have "locks s4 = (locks s)(ni_ID (n_info nd) \<mapsto> r_Fid rb)"
    by (simp add: s4_def s3_def s2_def s1_def p_def)
  then show ?thesis
    by (simp add: o1 o2 c3 o4)
qed


text \<open>
  C8, as stated, fails at two inputs. An Open of a removed file whose qid path has DMEXCL
  in the mode table, while fid 4 holds the lock of that path, is answered with the
  unlinked error, not with "file already locked". And the lock is not always released
  when its holder is clunked and destroyed: fid 7 is made from fid 4 by a Walk without
  names, so the two fids hold the same \<^verbatim>\<open>fsNode\<close>; fid 4 opens \<^verbatim>\<open>/lock\<close> and gets the lock;
  the Open of fid 7 fails and stores \<^verbatim>\<open>nil\<close> in the lock field of the shared \<^verbatim>\<open>fsNode\<close>;
  the Clunk and the destruction of fid 4 then find no lock to release, and the Open of
  another client (fid 5) is still refused.
\<close>

theorem C8_exclusive_open_counterexample:
  "exclusive (ex_ops\<lparr>locks := (locks ex_ops)(5 \<mapsto> 4), moreModes := (moreModes ex_ops)(5 := DMEXCL)\<rparr>)
     (ex_node 5 0x1A4 ''gone'' 0 [] ''old'' True) \<and>
   ops_Open ex_env
     (ex_ops\<lparr>locks := (locks ex_ops)(5 \<mapsto> 4), moreModes := (moreModes ex_ops)(5 := DMEXCL)\<rparr>)
     (ex_req 3 ex_tc) =
     Some (ex_ops\<lparr>locks := (locks ex_ops)(5 \<mapsto> 4), moreModes := (moreModes ex_ops)(5 := DMEXCL)\<rparr>,
           [Rerror Eunlinked]) \<and>
   map_option snd
     (run ex_env ex_ops
        [Twalk (ex_req 4 ex_tc), Topen (ex_req 4 ex_tc), Topen (ex_req 7 ex_tc),
         Tclunk (ex_req 4 ex_tc), Destroy 4, Topen (ex_req 5 ex_tc)]) =
     Some [[Rwalk []],
           [Ropen \<lparr>q_Type = QTEXCL, q_Version = 1, q_Path = 6\<rparr> 0],
           [RerrorString ''file already locked''],
           [Rclunk],
           [],
           [RerrorString ''file already locked'']]"
  by (simp add: exclusive_def moreMode_def ops_Open_def ops_Walk_def ops_Clunk_def
      ops_FidDestroy_def ex_ops_def ex_tree_def ex_node_def ex_env_def ex_req_def ex_tc_def
      Unlinked_def IsDir_def NodeQID_def lockNode_def unlockNode_def node_Ref_def node_Unref_def
      upd_node_def tree_DMDIR_def DMEXCL_def ORCLOSE_def OTRUNC_def QTEXCL_def Let_def)

text \<open>
  C8, amended. For an Open without ORCLOSE on a fid at a node that is not marked unlinked
  and whose qid path has DMEXCL in the mode table: if another fid owns the lock of that
  qid path, the Open is answered with "file already locked" and the lock table is as
  before; otherwise the lock table names the opening fid as the owner, the \<^verbatim>\<open>fsNode\<close> of
  the fid records the lock, and the answer is Ropen with the exclusive bit in the qid
  when loading or truncating does not fail. A Clunk or the destruction of a fid whose
  \<^verbatim>\<open>fsNode\<close> records a lock removes that lock from the table. So, for a file and two
  fids at it with an \<^verbatim>\<open>fsNode\<close> each, the lock being free: the first fid opens, the
  second is refused, the first is clunked, and the second then opens and owns the lock.
\<close>

theorem C8_exclusive_open:
  assumes "fid_at s (r_Fid r) a node nd" and "\<not> Unlinked nd"
    and "tc_Mode (r_Tc r) AND ORCLOSE = 0" and "exclusive s nd"
  shows
    "(locks s (ni_ID (n_info nd)) = Some owner \<and> owner \<noteq> r_Fid r \<longrightarrow>
        ops_Open e s r =
          Some (s\<lparr>heap := (heap s)(a \<mapsto> node\<lparr>fs_lock := None\<rparr>)\<rparr>,
                [RerrorString ''file already locked'']))
     \<and> (locks s (ni_ID (n_info nd)) = None \<or> locks s (ni_ID (n_info nd)) = Some (r_Fid r) \<longrightarrow>
          (\<exists>s' rs. ops_Open e s r = Some (s', rs) \<and>
             locks s' = (locks s)(ni_ID (n_info nd) \<mapsto> r_Fid r) \<and>
             map_option fs_lock (heap s' a) = Some (Some (ni_ID (n_info nd))) \<and>
             ((IsDir nd \<longrightarrow> e_fault e F_Grow = None) \<and>
              (\<not> IsDir nd \<and> tc_Mode (r_Tc r) AND OTRUNC \<noteq> 0 \<longrightarrow> e_fault e F_Truncate = None) \<longrightarrow>
              rs = [Ropen ((NodeQID nd)\<lparr>q_Type := q_Type (NodeQID nd) OR QTEXCL\<rparr>) 0])))
     \<and> (fs_lock node = Some l \<longrightarrow>
          ops_Clunk s r =
            Some (s\<lparr>locks := (locks s)(l := None),
                     heap := (heap s)(a \<mapsto> node\<lparr>fs_lock := None\<rparr>)\<rparr>, [Rclunk]) \<and>
          ops_FidDestroy s (r_Fid r) =
            Some (s\<lparr>ops_tree := node_Unref (ops_tree s) (fs_Node node),
                     locks := (locks s)(l := None),
                     heap := (heap s)(a \<mapsto> node\<lparr>fs_lock := None\<rparr>)\<rparr>))
     \<and> (fid_at s (r_Fid rb) b nodeB nd \<and> a \<noteq> b \<and> r_Fid r \<noteq> r_Fid rb \<and> \<not> IsDir nd \<and>
          locks s (ni_ID (n_info nd)) = None \<and> tc_Mode (r_Tc r) AND OTRUNC = 0 \<and>
          tc_Mode (r_Tc rb) AND ORCLOSE = 0 \<and> tc_Mode (r_Tc rb) AND OTRUNC = 0 \<longrightarrow>
          (\<exists>s'. run e s [Topen r, Topen rb, Tclunk r, Topen rb] =
                  Some (s', [[Ropen ((NodeQID nd)\<lparr>q_Type := q_Type (NodeQID nd) OR QTEXCL\<rparr>) 0],
                             [RerrorString ''file already locked''],
                             [Rclunk],
                             [Ropen ((NodeQID nd)\<lparr>q_Type := q_Type (NodeQID nd) OR QTEXCL\<rparr>) 0]]) \<and>
                locks s' = (locks s)(ni_ID (n_info nd) \<mapsto> r_Fid rb)))"
proof (intro conjI impI)
  assume "locks s (ni_ID (n_info nd)) = Some owner \<and> owner \<noteq> r_Fid r"
  then show "ops_Open e s r =
          Some (s\<lparr>heap := (heap s)(a \<mapsto> node\<lparr>fs_lock := None\<rparr>)\<rparr>,
                [RerrorString ''file already locked''])"
    using Open_locked[OF assms] by blast
next
  assume "locks s (ni_ID (n_info nd)) = None \<or> locks s (ni_ID (n_info nd)) = Some (r_Fid r)"
  then show "\<exists>s' rs. ops_Open e s r = Some (s', rs) \<and>
             locks s' = (locks s)(ni_ID (n_info nd) \<mapsto> r_Fid r) \<and>
             map_option fs_lock (heap s' a) = Some (Some (ni_ID (n_info nd))) \<and>
             ((IsDir nd \<longrightarrow> e_fault e F_Grow = None) \<and>
              (\<not> IsDir nd \<and> tc_Mode (r_Tc r) AND OTRUNC \<noteq> 0 \<longrightarrow> e_fault e F_Truncate = None) \<longrightarrow>
              rs = [Ropen ((NodeQID nd)\<lparr>q_Type := q_Type (NodeQID nd) OR QTEXCL\<rparr>) 0])"
    by (rule Open_acquires[OF assms])
next
  assume l: "fs_lock node = Some l"
  from assms(1) have f: "fids s (r_Fid r) = AuxFsNode a" "heap s a = Some node"
    by (simp_all add: fid_at_def)
  show "ops_Clunk s r =
            Some (s\<lparr>locks := (locks s)(l := None),
                     heap := (heap s)(a \<mapsto> node\<lparr>fs_lock := None\<rparr>)\<rparr>, [Rclunk])"
    by (rule Clunk_unlocks[OF f l])
  show "ops_FidDestroy s (r_Fid r) =
            Some (s\<lparr>ops_tree := node_Unref (ops_tree s) (fs_Node node),
                     locks := (locks s)(l := None),
                     heap := (heap s)(a \<mapsto> node\<lparr>fs_lock := None\<rparr>)\<rparr>)"
    by (rule FidDestroy_unlocks[OF f l])
next
  assume h: "fid_at s (r_Fid rb) b nodeB nd \<and> a \<noteq> b \<and> r_Fid r \<noteq> r_Fid rb \<and> \<not> IsDir nd \<and>
          locks s (ni_ID (n_info nd)) = None \<and> tc_Mode (r_Tc r) AND OTRUNC = 0 \<and>
          tc_Mode (r_Tc rb) AND ORCLOSE = 0 \<and> tc_Mode (r_Tc rb) AND OTRUNC = 0"
  show "\<exists>s'. run e s [Topen r, Topen rb, Tclunk r, Topen rb] =
                  Some (s', [[Ropen ((NodeQID nd)\<lparr>q_Type := q_Type (NodeQID nd) OR QTEXCL\<rparr>) 0],
                             [RerrorString ''file already locked''],
                             [Rclunk],
                             [Ropen ((NodeQID nd)\<lparr>q_Type := q_Type (NodeQID nd) OR QTEXCL\<rparr>) 0]]) \<and>
                locks s' = (locks s)(ni_ID (n_info nd) \<mapsto> r_Fid rb)"
    using h
    by (intro exclusive_scenario[OF assms(1) _ _ _ assms(2) _ assms(4) _ assms(3),
          where b = b and nodeB = nodeB]) simp_all
qed

theorem C8_exclusive_open_witness:
  "(\<exists>s'. run ex_env ex_ops
           [Topen (ex_req 4 ex_tc), Topen (ex_req 5 ex_tc), Tclunk (ex_req 4 ex_tc),
            Topen (ex_req 5 ex_tc)] =
         Some (s', [[Ropen \<lparr>q_Type = QTEXCL, q_Version = 1, q_Path = 6\<rparr> 0],
                    [RerrorString ''file already locked''],
                    [Rclunk],
                    [Ropen \<lparr>q_Type = QTEXCL, q_Version = 1, q_Path = 6\<rparr> 0]]) \<and>
         locks s' 6 = Some 5)
   \<and> ops_Open ex_env (ex_ops\<lparr>locks := (locks ex_ops)(6 \<mapsto> 4)\<rparr>) (ex_req 5 ex_tc) =
       Some (ex_ops\<lparr>locks := (locks ex_ops)(6 \<mapsto> 4)\<rparr>, [RerrorString ''file already locked''])"
proof -
  let ?lock = "ex_node 6 0x1A4 ''lock'' 0 [] [] False"
  let ?fs = "\<lparr>fs_Node = 5, fs_dirb = [], fs_lock = None\<rparr>"
  let ?held = "ex_ops\<lparr>locks := (locks ex_ops)(6 \<mapsto> 4)\<rparr>"
  have f: "fid_at ex_ops (r_Fid (ex_req 4 ex_tc)) 13 ?fs ?lock"
    "fid_at ex_ops (r_Fid (ex_req 5 ex_tc)) 14 ?fs ?lock"
    "fid_at ?held (r_Fid (ex_req 5 ex_tc)) 14 ?fs ?lock"
    by (simp_all add: fid_at_def ex_ops_def ex_tree_def ex_req_def)
  have u: "\<not> Unlinked ?lock" "\<not> IsDir ?lock" "ni_ID (n_info ?lock) = 6"
    "NodeQID ?lock = \<lparr>q_Type = 0, q_Version = 1, q_Path = 6\<rparr>"
    by (simp_all add: Unlinked_def IsDir_def NodeQID_def ex_node_def tree_DMDIR_def)
  have m: "tc_Mode (r_Tc (ex_req 4 ex_tc)) AND ORCLOSE = 0"
    "tc_Mode (r_Tc (ex_req 4 ex_tc)) AND OTRUNC = 0"
    "tc_Mode (r_Tc (ex_req 5 ex_tc)) AND ORCLOSE = 0"
    "tc_Mode (r_Tc (ex_req 5 ex_tc)) AND OTRUNC = 0"
    "r_Fid (ex_req 4 ex_tc) \<noteq> r_Fid (ex_req 5 ex_tc)" "r_Fid (ex_req 5 ex_tc) = 5"
    by (simp_all add: ex_req_def ex_tc_def)
  have x: "exclusive ex_ops ?lock" "exclusive ?held ?lock"
    "locks ex_ops (ni_ID (n_info ?lock)) = None"
    "locks ?held (ni_ID (n_info ?lock)) = Some 4"
    by (simp_all add: exclusive_def moreMode_def ex_ops_def ex_node_def DMEXCL_def)
  have h: "heap ?held 14 = Some ?fs" by (simp add: ex_ops_def)
  from C8_exclusive_open[OF f(1) u(1) m(1) x(1), where e = ex_env and rb = "ex_req 5 ex_tc"
      and b = 14 and nodeB = ?fs] f(2) u(2) m x(3)
  have 1: "\<exists>s'. run ex_env ex_ops
           [Topen (ex_req 4 ex_tc), Topen (ex_req 5 ex_tc), Tclunk (ex_req 4 ex_tc),
            Topen (ex_req 5 ex_tc)] =
         Some (s', [[Ropen \<lparr>q_Type = QTEXCL, q_Version = 1, q_Path = 6\<rparr> 0],
                    [RerrorString ''file already locked''],
                    [Rclunk],
                    [Ropen \<lparr>q_Type = QTEXCL, q_Version = 1, q_Path = 6\<rparr> 0]]) \<and>
         locks s' 6 = Some 5"
    by (auto simp: u(3,4))
  from C8_exclusive_open[OF f(3) u(1) m(3) x(2), where e = ex_env and owner = 4] x(4) m(6)
  have "ops_Open ex_env ?held (ex_req 5 ex_tc) =
       Some (?held\<lparr>heap := (heap ?held)(14 \<mapsto> ?fs\<lparr>fs_lock := None\<rparr>)\<rparr>,
             [RerrorString ''file already locked''])"
    by simp
  moreover have "?held\<lparr>heap := (heap ?held)(14 \<mapsto> ?fs\<lparr>fs_lock := None\<rparr>)\<rparr> = ?held"
    using h by (simp add: fun_upd_idem)
  ultimately have 2: "ops_Open ex_env ?held (ex_req 5 ex_tc) =
       Some (?held, [RerrorString ''file already locked''])"
    by simp
  from 1 2 show ?thesis by (intro conjI)
qed

end
